theory Spec2Isabelle
  imports Main "HOL-Library.AList"
begin

section \<open>Python values used by the clinic core\<close>

text \<open>
  A text is the UTF-8 encoding of a Python \<open>str\<close>, byte by byte; equality,
  concatenation and emptiness are those of the \<open>str\<close>. An identifier that may be Python's \<open>None\<close> (the \<open>id\<close> of a
  session, the \<open>doctor_id\<close> of an emergency) is a \<open>string option\<close>, \<open>None\<close> standing for
  \<open>None\<close>.
\<close>

type_synonym pyid = "string option"

text \<open>Python's truth value of an identifier: \<open>None\<close> and the empty string are false.\<close>

definition truthy :: "pyid \<Rightarrow> bool" where
  "truthy x = (case x of None \<Rightarrow> False | Some s \<Rightarrow> s \<noteq> [])"

text \<open>
  \<open>str.lower\<close>. On a text of ASCII characters it maps \<open>A\<close>-\<open>Z\<close> to \<open>a\<close>-\<open>z\<close> and
  leaves the rest. On any other text its value is the library's Unicode case mapping,
  which is not fixed here: it is the argument \<open>ulower\<close> of every function that
  lower-cases.
\<close>

definition lower_char :: "char \<Rightarrow> char" where
  "lower_char c =
     (let n = (of_char c :: nat) in if 65 \<le> n \<and> n \<le> 90 then char_of (n + 32) else c)"

definition is_ascii :: "string \<Rightarrow> bool" where
  "is_ascii s = list_all (\<lambda>c. (of_char c :: nat) < 128) s"

definition py_lower :: "(string \<Rightarrow> string) \<Rightarrow> string \<Rightarrow> string" where
  "py_lower ulower s = (if is_ascii s then map lower_char s else ulower s)"

text \<open>
  \<open>str.strip()\<close> removes from both ends the characters for which \<open>str.isspace\<close> holds:
  U+0009-000D, U+001C-0020, U+0085, U+00A0, U+1680, U+2000-200A, U+2028, U+2029, U+202F,
  U+205F and U+3000, listed here by their UTF-8 encodings. No encoding is a prefix or a
  suffix of another character's, so stripping the encodings strips the characters.
\<close>

definition whitespace :: "string list" where
  "whitespace =
    [[CHR 0x09], [CHR 0x0A], [CHR 0x0B], [CHR 0x0C], [CHR 0x0D], [CHR 0x1C], [CHR 0x1D],
     [CHR 0x1E], [CHR 0x1F], [CHR 0x20], [CHR 0xC2, CHR 0x85], [CHR 0xC2, CHR 0xA0],
     [CHR 0xE1, CHR 0x9A, CHR 0x80], [CHR 0xE2, CHR 0x80, CHR 0x80],
     [CHR 0xE2, CHR 0x80, CHR 0x81], [CHR 0xE2, CHR 0x80, CHR 0x82],
     [CHR 0xE2, CHR 0x80, CHR 0x83], [CHR 0xE2, CHR 0x80, CHR 0x84],
     [CHR 0xE2, CHR 0x80, CHR 0x85], [CHR 0xE2, CHR 0x80, CHR 0x86],
     [CHR 0xE2, CHR 0x80, CHR 0x87], [CHR 0xE2, CHR 0x80, CHR 0x88],
     [CHR 0xE2, CHR 0x80, CHR 0x89], [CHR 0xE2, CHR 0x80, CHR 0x8A],
     [CHR 0xE2, CHR 0x80, CHR 0xA8], [CHR 0xE2, CHR 0x80, CHR 0xA9],
     [CHR 0xE2, CHR 0x80, CHR 0xAF], [CHR 0xE2, CHR 0x81, CHR 0x9F],
     [CHR 0xE3, CHR 0x80, CHR 0x80]]"

text \<open>The length of the whitespace encoding \<open>s\<close> starts with, or 0 when it starts with none.\<close>

definition space_prefix :: "string list \<Rightarrow> string \<Rightarrow> nat" where
  "space_prefix ws s =
     (case find (\<lambda>w. w \<noteq> [] \<and> take (length w) s = w) ws of
        None \<Rightarrow> 0
      | Some w \<Rightarrow> length w)"

lemma space_prefix_le: "space_prefix ws s \<le> length s"
proof (cases "find (\<lambda>w. w \<noteq> [] \<and> take (length w) s = w) ws")
  case None
  then show ?thesis by (simp add: space_prefix_def)
next
  case (Some w)
  then have "take (length w) s = w"
    by (auto simp add: find_Some_iff)
  then have "length w \<le> length s"
    by (metis length_take min.cobounded1)
  then show ?thesis using Some by (simp add: space_prefix_def)
qed

function lstrip :: "string list \<Rightarrow> string \<Rightarrow> string" where
  "lstrip ws s = (if space_prefix ws s = 0 then s else lstrip ws (drop (space_prefix ws s) s))"
  by pat_completeness auto
termination
proof (relation "measure (\<lambda>(ws, s). length s)")
  show "wf (measure (\<lambda>(ws, s). length s))"
    by simp
next
  fix ws :: "string list" and s :: string
  assume "space_prefix ws s \<noteq> 0"
  then show "((ws, drop (space_prefix ws s) s), (ws, s)) \<in> measure (\<lambda>(ws, s). length s)"
    using space_prefix_le [of ws s] by simp
qed

declare lstrip.simps [simp del]

definition py_strip :: "string \<Rightarrow> string" where
  "py_strip s = rev (lstrip (map rev whitespace) (rev (lstrip whitespace s)))"

text \<open>\<open>str.replace(' ', '_')\<close>\<close>

definition replace_space :: "string \<Rightarrow> string" where
  "replace_space s = map (\<lambda>c. if c = CHR '' '' then CHR ''_'' else c) s"

text \<open>The format \<open>{n:02d}\<close>: decimal digits, padded with zeros to width two.\<close>

definition digit_char :: "nat \<Rightarrow> char" where
  "digit_char d = char_of (48 + d)"

fun decimal :: "nat \<Rightarrow> string" where
  "decimal n = (if n < 10 then [digit_char n] else decimal (n div 10) @ [digit_char (n mod 10)])"

declare decimal.simps [simp del]

definition fmt02 :: "nat \<Rightarrow> string" where
  "fmt02 n = (let s = decimal n in replicate (2 - length s) (CHR ''0'') @ s)"

text \<open>
  A Python \<open>dict\<close> is an association list in insertion order with distinct keys:
  \<open>d.get(k)\<close> is \<open>map_of d k\<close>, \<open>k in d\<close> is \<open>dict_mem\<close>, \<open>d[k] = v\<close> replaces the
  value in place or appends a new key at the end (\<open>AList.update\<close>), \<open>d.keys()\<close> and
  \<open>d.values()\<close> list in insertion order.
\<close>

definition dict_mem :: "'k \<Rightarrow> ('k \<times> 'v) list \<Rightarrow> bool" where
  "dict_mem k d = (map_of d k \<noteq> None)"

definition dict_set :: "('k \<times> 'v) list \<Rightarrow> 'k \<Rightarrow> 'v \<Rightarrow> ('k \<times> 'v) list" where
  "dict_set d k v = AList.update k v d"

definition dict_keys :: "('k \<times> 'v) list \<Rightarrow> 'k list" where
  "dict_keys d = map fst d"

definition dict_values :: "('k \<times> 'v) list \<Rightarrow> 'v list" where
  "dict_values d = map snd d"

section \<open>The document\<close>

record user =
  user_password :: string
  user_role :: string
  user_id :: pyid

record patient =
  pat_id :: pyid
  pat_name :: string
  pat_age :: string
  pat_gender :: string

record doctor =
  doc_id :: string
  doc_name :: string
  doc_specialty :: string

record appointment =
  appt_id :: string
  appt_patient_id :: pyid
  appt_doctor_id :: pyid
  appt_date :: string
  appt_time :: string
  appt_problem :: string
  appt_status :: string

record referral =
  ref_patient_id :: pyid
  ref_from_doc_id :: pyid
  ref_to_doc_id :: string
  ref_date :: string
  ref_notes :: string

record report =
  rep_report_id :: string
  rep_date :: string
  rep_doctor_id :: pyid
  rep_File :: "string option"
  rep_Details :: "string option"

text \<open>
  The JSON document of \<open>data_manager\<close>, with its six collections present and every record
  carrying the keys of the schema.
\<close>

record document =
  users :: "(string \<times> user) list"
  patients :: "(pyid \<times> patient) list"
  doctors :: "(string \<times> doctor) list"
  appointments :: "appointment list"
  reports :: "(pyid \<times> report list) list"
  referrals :: "referral list"

text \<open>\<open>self.current_user\<close>: \<open>None\<close> before a login, else the session dictionary.\<close>

record session =
  cu_username :: string
  cu_role :: string
  cu_id :: pyid

text \<open>
  The state of the program: \<open>self.data\<close>, \<open>self.current_user\<close>, and the file
  \<open>pms_data.json\<close> (\<open>None\<close> when it is missing or does not decode).
\<close>

record system =
  data :: document
  current_user :: "session option"
  store :: "document option"

definition default_document :: document where
  "default_document =
     \<lparr>users = [(''admin'', \<lparr>user_password = ''adminpass'', user_role = ''Admin'', user_id = None\<rparr>)],
      patients = [], doctors = [], appointments = [], reports = [], referrals = []\<rparr>"

definition load_data :: "system \<Rightarrow> document" where
  "load_data s = (case store s of None \<Rightarrow> default_document | Some d \<Rightarrow> d)"

definition save_data :: "document \<Rightarrow> system \<Rightarrow> system" where
  "save_data d s = s\<lparr>store := Some d\<rparr>"

definition reload :: "system \<Rightarrow> system" where
  "reload s = s\<lparr>data := load_data s\<rparr>"

text \<open>
  What an operation returns instead of its success value. \<open>NoSession\<close> is the exception
  raised by \<open>self.current_user['id']\<close> when nobody is logged in; the others are the
  message strings the operations return.
\<close>

datatype error =
    NoSession
  | UsernameTaken
  | PatientNotFound
  | TargetDoctorNotFound
  | NoDoctorAvailable string
  | InvalidSlot
  | NoDoctors
  | Conflict string string

section \<open>Appointment slots\<close>

text \<open>
  The nested loops that build \<open>slots\<close> in \<open>get_today_appointments\<close> and
  \<open>allowed_times\<close> in the lineage \<open>book_appointment\<close>: \<open>range(9, 12)\<close> and
  \<open>range(14, 18)\<close> over \<open>range(0, 60, 10)\<close>.
\<close>

definition slot_label :: "nat \<Rightarrow> nat \<Rightarrow> string" where
  "slot_label h m = fmt02 h @ '':'' @ fmt02 m"

definition minutes :: "nat list" where
  "minutes = map (\<lambda>k. 10 * k) [0..<6]"

definition hour_slots :: "nat list \<Rightarrow> string list" where
  "hour_slots hs = concat (map (\<lambda>h. map (slot_label h) minutes) hs)"

definition allowed_times :: "string list" where
  "allowed_times = hour_slots [9..<12] @ hour_slots [14..<18]"

section \<open>Authentication and administration (\<open>pms_core.py\<close>)\<close>

text \<open>
  Every operation takes the state and returns its return value with the state it leaves.
  The values of \<open>_generate_id()\<close> (\<open>uuid4\<close>) and of \<open>datetime.now()\<close> are arguments:
  \<open>u1\<close>, \<open>u2\<close> are the results of the first and second call of \<open>_generate_id\<close>,
  \<open>today\<close> is \<open>now.strftime('%Y-%m-%d')\<close> and \<open>hm\<close> is \<open>now.strftime('%H:%M')\<close>.
\<close>

definition login :: "system \<Rightarrow> string \<Rightarrow> string \<Rightarrow> bool \<times> system" where
  "login s username password =
     (case map_of (users (data s)) username of
        None \<Rightarrow> (False, s)
      | Some user_info \<Rightarrow>
          if user_password user_info = password
          then (True, s\<lparr>current_user :=
                  Some \<lparr>cu_username = username, cu_role = user_role user_info,
                        cu_id = user_id user_info\<rparr>\<rparr>)
          else (False, s))"

definition add_doctor ::
  "(string \<Rightarrow> string) \<Rightarrow> system \<Rightarrow> string \<Rightarrow> string \<Rightarrow> string \<Rightarrow> string
     \<Rightarrow> (error + string \<times> string \<times> string) \<times> system" where
  "add_doctor ulower s u1 name specialty password =
     (let doctor_id = u1;
          username = replace_space (py_lower ulower name)
      in if dict_mem username (users (data s)) then (Inl UsernameTaken, s)
         else
           let d1 = (data s)\<lparr>doctors := dict_set (doctors (data s)) doctor_id
                        \<lparr>doc_id = doctor_id, doc_name = name, doc_specialty = specialty\<rparr>\<rparr>;
               d2 = d1\<lparr>users := dict_set (users d1) username
                        \<lparr>user_password = password, user_role = ''Doctor'',
                         user_id = Some doctor_id\<rparr>\<rparr>
           in (Inr (name, username, doctor_id), save_data d2 (s\<lparr>data := d2\<rparr>)))"

section \<open>Referrals and reports (\<open>pms_core.py\<close>)\<close>

definition create_referral ::
  "system \<Rightarrow> string \<Rightarrow> pyid \<Rightarrow> string \<Rightarrow> string \<Rightarrow> (error + pyid) \<times> system" where
  "create_referral s today patient_id to_doc_id notes =
     (if \<not> dict_mem patient_id (patients (data s)) then (Inl PatientNotFound, s)
      else if \<not> dict_mem to_doc_id (doctors (data s)) then (Inl TargetDoctorNotFound, s)
      else
        case current_user s of
          None \<Rightarrow> (Inl NoSession, s)
        | Some cu \<Rightarrow>
            let referral = \<lparr>ref_patient_id = patient_id, ref_from_doc_id = cu_id cu,
                            ref_to_doc_id = to_doc_id, ref_date = today, ref_notes = notes\<rparr>;
                d1 = (data s)\<lparr>referrals := referrals (data s) @ [referral]\<rparr>
            in (Inr patient_id, save_data d1 (s\<lparr>data := d1\<rparr>)))"

definition upload_report ::
  "system \<Rightarrow> string \<Rightarrow> string \<Rightarrow> pyid \<Rightarrow> pyid \<Rightarrow> pyid \<Rightarrow> (error + string) \<times> system" where
  "upload_report s u1 today patient_id details file_name =
     (if \<not> dict_mem patient_id (patients (data s)) then (Inl PatientNotFound, s)
      else
        let report_id = u1 in
        case current_user s of
          None \<Rightarrow> (Inl NoSession, s)
        | Some cu \<Rightarrow>
            let report = \<lparr>rep_report_id = report_id, rep_date = today, rep_doctor_id = cu_id cu,
                          rep_File = (if truthy file_name then file_name else None),
                          rep_Details = (if truthy details then details else None)\<rparr>;
                old = (case map_of (reports (data s)) patient_id of None \<Rightarrow> [] | Some l \<Rightarrow> l);
                d1 = (data s)\<lparr>reports := dict_set (reports (data s)) patient_id (old @ [report])\<rparr>
            in (Inr report_id, save_data d1 (s\<lparr>data := d1\<rparr>)))"

section \<open>Booking with specialty routing (\<open>pms_core.py\<close>)\<close>

definition problem_to_specialty :: "(string \<times> string) list" where
  "problem_to_specialty =
     [(''Heart'', ''Cardiology''),
      (''Fever'', ''General Physician''),
      (''Skin'', ''Dermatologist''),
      (''Diabetes'', ''Endocrinologist''),
      (''Bone'', ''Orthopedic''),
      (''Can'' @ [CHR 0x27] @ ''t say'', ''General Physician'')]"

text \<open>\<open>problem_to_specialty.get(problem, "General Physician")\<close>\<close>

definition resolve_specialty :: "string \<Rightarrow> string" where
  "resolve_specialty problem =
     (case map_of problem_to_specialty problem of
        None \<Rightarrow> ''General Physician''
      | Some sp \<Rightarrow> sp)"

text \<open>The list comprehension over \<open>self.data['doctors'].values()\<close>.\<close>

definition candidates :: "document \<Rightarrow> string \<Rightarrow> doctor list" where
  "candidates d specialty = filter (\<lambda>doc. doc_specialty doc = specialty) (dict_values (doctors d))"

text \<open>The sort key: \<open>sum(1 for a in appointments if a['doctor_id']==d['id'] and a['date']==date)\<close>.\<close>

definition same_day_count :: "document \<Rightarrow> string \<Rightarrow> doctor \<Rightarrow> nat" where
  "same_day_count d date doc =
     length (filter (\<lambda>a. appt_doctor_id a = Some (doc_id doc) \<and> appt_date a = date)
               (appointments d))"

text \<open>
  \<open>list.sort(key=...)\<close> is a stable sort; so is \<open>sort_key\<close>, and a stable sort by a key has
  one result. \<open>doctors[0]\<close> is read after the emptiness test, on a list that is not empty.
\<close>

definition book_appointment ::
  "system \<Rightarrow> string \<Rightarrow> string \<Rightarrow> string \<Rightarrow> string \<Rightarrow> string \<Rightarrow> string \<Rightarrow> string \<Rightarrow> string
     \<Rightarrow> (error + doctor) \<times> system" where
  "book_appointment s u1 u2 name age gender date time problem =
     (case current_user s of
        None \<Rightarrow> (Inl NoSession, s)
      | Some cu \<Rightarrow>
          let patient_id = (if truthy (cu_id cu) then cu_id cu else Some u1);
              next_id = (if truthy (cu_id cu) then u1 else u2);
              specialty = resolve_specialty problem;
              docs = candidates (data s) specialty
          in if docs = [] then (Inl (NoDoctorAvailable specialty), s)
             else
               let sorted_docs = sort_key (same_day_count (data s) date) docs;
                   doctor = hd sorted_docs;
                   doctor_id = doc_id doctor;
                   appointment = \<lparr>appt_id = next_id, appt_patient_id = patient_id,
                                   appt_doctor_id = Some doctor_id, appt_date = date,
                                   appt_time = time, appt_problem = problem,
                                   appt_status = ''Approved''\<rparr>;
                   d1 = (data s)\<lparr>appointments := appointments (data s) @ [appointment]\<rparr>
               in (Inr doctor, save_data d1 (s\<lparr>data := d1\<rparr>)))"

definition log_emergency ::
  "system \<Rightarrow> string \<Rightarrow> string \<Rightarrow> string \<Rightarrow> string \<Rightarrow> string \<Rightarrow> string \<Rightarrow> string
     \<Rightarrow> (error + string) \<times> system" where
  "log_emergency s u1 today hm name age gender problem =
     (case current_user s of
        None \<Rightarrow> (Inl NoSession, s)
      | Some cu \<Rightarrow>
          let patient_id = cu_id cu;
              d1 = (if \<not> dict_mem patient_id (patients (data s))
                    then (data s)\<lparr>patients := dict_set (patients (data s)) patient_id
                           \<lparr>pat_id = patient_id, pat_name = name, pat_age = age,
                            pat_gender = gender\<rparr>\<rparr>
                    else data s);
              new_id = u1;
              emergency = \<lparr>appt_id = new_id, appt_patient_id = patient_id,
                           appt_doctor_id = None, appt_date = today, appt_time = hm,
                           appt_problem = problem, appt_status = ''Emergency''\<rparr>;
              d2 = d1\<lparr>appointments := appointments d1 @ [emergency]\<rparr>
          in (Inr new_id, save_data d2 (s\<lparr>data := d2\<rparr>)))"

section \<open>Booking with slot validation (\<open>dsa_pbl/pms_core.py\<close>)\<close>

text \<open>
  The lineage variant: the requester's patient record is created first, then the time is
  validated, the first doctor of the collection is taken, and the loop over the
  appointments looks for an Approved appointment of that doctor at the same date and time.
\<close>

definition clashes :: "string \<Rightarrow> string \<Rightarrow> string \<Rightarrow> appointment \<Rightarrow> bool" where
  "clashes assigned_doc_id date time appt =
     (appt_doctor_id appt = Some assigned_doc_id \<and> appt_date appt = date \<and>
      appt_time appt = time \<and> appt_status appt = ''Approved'')"

definition dsa_book_appointment ::
  "system \<Rightarrow> string \<Rightarrow> string \<Rightarrow> string \<Rightarrow> string \<Rightarrow> string \<Rightarrow> string \<Rightarrow> string
     \<Rightarrow> (error + appointment) \<times> system" where
  "dsa_book_appointment s u1 name age gender date time problem =
     (case current_user s of
        None \<Rightarrow> (Inl NoSession, s)
      | Some cu \<Rightarrow>
          let patient_id = cu_id cu;
              d1 = (if \<not> dict_mem patient_id (patients (data s))
                    then (data s)\<lparr>patients := dict_set (patients (data s)) patient_id
                           \<lparr>pat_id = patient_id, pat_name = name, pat_age = age,
                            pat_gender = gender\<rparr>\<rparr>
                    else data s);
              s1 = s\<lparr>data := d1\<rparr>
          in if time \<notin> set allowed_times then (Inl InvalidSlot, s1)
             else
               (case dict_keys (doctors d1) of
                  [] \<Rightarrow> (Inl NoDoctors, s1)
                | assigned_doc_id # _ \<Rightarrow>
                    if list_ex (clashes assigned_doc_id date time) (appointments d1)
                    then (Inl (Conflict time date), s1)
                    else
                      (let appointment = \<lparr>appt_id = u1, appt_patient_id = patient_id,
                                          appt_doctor_id = Some assigned_doc_id, appt_date = date,
                                          appt_time = time, appt_problem = problem,
                                          appt_status = ''Approved''\<rparr>;
                           d2 = d1\<lparr>appointments := appointments d1 @ [appointment]\<rparr>
                       in (Inr appointment, save_data d2 (s1\<lparr>data := d2\<rparr>)))))"

section \<open>Query views (\<open>pms_core.py\<close>)\<close>

text \<open>The status test of the views: \<open>str(appt.get('status', '')).strip().lower() == w\<close>.\<close>

definition status_is :: "(string \<Rightarrow> string) \<Rightarrow> string \<Rightarrow> appointment \<Rightarrow> bool" where
  "status_is ulower w appt = (py_lower ulower (py_strip (appt_status appt)) = w)"

text \<open>\<open>self.data['patients'].get(appt.get('patient_id'), ...)\<close> and the fields read from it.\<close>

definition patient_name :: "document \<Rightarrow> pyid \<Rightarrow> string" where
  "patient_name d pid = (case map_of (patients d) pid of None \<Rightarrow> ''Unknown'' | Some p \<Rightarrow> pat_name p)"

definition patient_age :: "document \<Rightarrow> pyid \<Rightarrow> string" where
  "patient_age d pid = (case map_of (patients d) pid of None \<Rightarrow> ''N/A'' | Some p \<Rightarrow> pat_age p)"

text \<open>\<open>self.data.get('doctors', {}).get(appt.get('doctor_id', ''), {}).get('name', 'N/A')\<close>\<close>

definition doctor_name :: "document \<Rightarrow> pyid \<Rightarrow> string" where
  "doctor_name d did =
     (case did of
        None \<Rightarrow> ''N/A''
      | Some k \<Rightarrow> (case map_of (doctors d) k of None \<Rightarrow> ''N/A'' | Some doc \<Rightarrow> doc_name doc))"

subsection \<open>Today's schedule as a grid\<close>

record slot =
  slot_time :: string
  slot_status :: string
  slot_patient :: string
  slot_problem :: string
  slot_appt_id :: "string option"

definition slots :: "string list" where
  "slots = hour_slots [9..<12] @ hour_slots [14..<18]"

definition available :: "string \<Rightarrow> slot" where
  "available t = \<lparr>slot_time = t, slot_status = ''Available'', slot_patient = ''-'',
                  slot_problem = ''-'', slot_appt_id = None\<rparr>"

text \<open>The four assignments made to the slot that matches.\<close>

definition booked :: "document \<Rightarrow> appointment \<Rightarrow> slot \<Rightarrow> slot" where
  "booked d appt sl =
     sl\<lparr>slot_status := ''Booked'', slot_patient := patient_name d (appt_patient_id appt),
        slot_problem := appt_problem appt, slot_appt_id := Some (appt_id appt)\<rparr>"

text \<open>The inner loop \<open>for slot in schedule\<close>, left by \<open>break\<close> at the first match.\<close>

fun fill_slot :: "document \<Rightarrow> appointment \<Rightarrow> string \<Rightarrow> slot list \<Rightarrow> slot list" where
  "fill_slot d appt t [] = []"
| "fill_slot d appt t (sl # rest) =
     (if slot_time sl = t then booked d appt sl # rest
      else sl # fill_slot d appt t rest)"

definition on_today :: "(string \<Rightarrow> string) \<Rightarrow> pyid \<Rightarrow> string \<Rightarrow> appointment \<Rightarrow> bool" where
  "on_today ulower doctor_id today appt =
     (appt_doctor_id appt = doctor_id \<and> appt_date appt = today \<and> status_is ulower ''approved'' appt)"

text \<open>The outer loop \<open>for appt in self.data.get('appointments', [])\<close>.\<close>

fun today_loop ::
  "(string \<Rightarrow> string) \<Rightarrow> document \<Rightarrow> pyid \<Rightarrow> string \<Rightarrow> appointment list \<Rightarrow> slot list \<Rightarrow> slot list" where
  "today_loop ulower d doctor_id today [] schedule = schedule"
| "today_loop ulower d doctor_id today (appt # rest) schedule =
     today_loop ulower d doctor_id today rest
       (if on_today ulower doctor_id today appt
        then fill_slot d appt (py_strip (appt_time appt)) schedule
        else schedule)"

definition get_today_appointments :: "(string \<Rightarrow> string) \<Rightarrow> system \<Rightarrow> pyid \<Rightarrow> string \<Rightarrow> slot list" where
  "get_today_appointments ulower s doctor_id today =
     today_loop ulower (data s) doctor_id today (appointments (data s)) (map available slots)"

subsection \<open>Emergency cases\<close>

record emergency_case =
  ec_ID :: string
  ec_Patient_Name :: string
  ec_Age :: string
  ec_Problem :: string
  ec_Time :: string
  ec_Assigned_Doctor :: pyid

definition emergency_entry :: "document \<Rightarrow> appointment \<Rightarrow> emergency_case" where
  "emergency_entry d appt =
     \<lparr>ec_ID = appt_id appt,
      ec_Patient_Name = patient_name d (appt_patient_id appt),
      ec_Age = patient_age d (appt_patient_id appt),
      ec_Problem = appt_problem appt,
      ec_Time = appt_time appt,
      ec_Assigned_Doctor = appt_doctor_id appt\<rparr>"

text \<open>
  The condition of the loop:
  \<open>status == 'emergency' and (appt.get('doctor_id') == doctor_id or not appt.get('doctor_id'))\<close>.
\<close>

definition visible_emergency :: "(string \<Rightarrow> string) \<Rightarrow> pyid \<Rightarrow> appointment \<Rightarrow> bool" where
  "visible_emergency ulower doctor_id appt =
     (status_is ulower ''emergency'' appt \<and>
      (appt_doctor_id appt = doctor_id \<or> \<not> truthy (appt_doctor_id appt)))"

fun emergency_loop :: "(string \<Rightarrow> string) \<Rightarrow> document \<Rightarrow> pyid \<Rightarrow> appointment list \<Rightarrow> emergency_case list" where
  "emergency_loop ulower d doctor_id [] = []"
| "emergency_loop ulower d doctor_id (appt # rest) =
     (if visible_emergency ulower doctor_id appt
      then emergency_entry d appt # emergency_loop ulower d doctor_id rest
      else emergency_loop ulower d doctor_id rest)"

definition get_emergency_cases :: "(string \<Rightarrow> string) \<Rightarrow> system \<Rightarrow> pyid \<Rightarrow> emergency_case list" where
  "get_emergency_cases ulower s doctor_id = emergency_loop ulower (data s) doctor_id (appointments (data s))"

subsection \<open>Upcoming checkup\<close>

text \<open>
  \<open>datetime.strptime(f"{date} {time}", '%Y-%m-%d %H:%M')\<close> is the argument \<open>strptime\<close>:
  it gives the instant a text denotes, or \<open>None\<close> where the library raises (the
  \<open>except\<close> clause then skips the appointment). Instants are any linear order.
\<close>

record 'dt checkup =
  up_datetime :: 'dt
  up_Date :: string
  up_Time :: string
  up_Doctor :: string
  up_Problem :: string

definition stamp :: "appointment \<Rightarrow> string" where
  "stamp appt = appt_date appt @ '' '' @ appt_time appt"

definition checkup_entry :: "document \<Rightarrow> appointment \<Rightarrow> 'dt \<Rightarrow> 'dt checkup" where
  "checkup_entry d appt appt_dt =
     \<lparr>up_datetime = appt_dt, up_Date = appt_date appt, up_Time = appt_time appt,
      up_Doctor = doctor_name d (appt_doctor_id appt), up_Problem = appt_problem appt\<rparr>"

fun upcoming_loop ::
  "(string \<Rightarrow> string) \<Rightarrow> (string \<Rightarrow> 'dt option) \<Rightarrow> document \<Rightarrow> pyid \<Rightarrow> ('dt::linorder) \<Rightarrow> appointment list
     \<Rightarrow> 'dt checkup option \<Rightarrow> 'dt checkup option" where
  "upcoming_loop ulower strptime d pid now [] upcoming = upcoming"
| "upcoming_loop ulower strptime d pid now (appt # rest) upcoming =
     upcoming_loop ulower strptime d pid now rest
       (if appt_patient_id appt = pid \<and> status_is ulower ''approved'' appt
        then (case strptime (stamp appt) of
                None \<Rightarrow> upcoming
              | Some appt_dt \<Rightarrow>
                  if now < appt_dt \<and>
                     (case upcoming of None \<Rightarrow> True | Some u \<Rightarrow> appt_dt < up_datetime u)
                  then Some (checkup_entry d appt appt_dt)
                  else upcoming)
        else upcoming)"

definition get_upcoming_checkup ::
  "(string \<Rightarrow> string) \<Rightarrow> (string \<Rightarrow> 'dt option) \<Rightarrow> system \<Rightarrow> ('dt::linorder) \<Rightarrow> error + 'dt checkup option" where
  "get_upcoming_checkup ulower strptime s now =
     (case current_user s of
        None \<Rightarrow> Inl NoSession
      | Some cu \<Rightarrow>
          Inr (upcoming_loop ulower strptime (data s) (cu_id cu) now (appointments (data s)) None))"

section \<open>Signup and login routes (\<open>app.py\<close>, \<open>deploy/app.py\<close>)\<close>

text \<open>
  The POST branch of \<open>signup\<close>: the form fields are stripped and the username is
  lower-cased; the document is read from the file and written back. \<open>deploy/app.py\<close>
  calls \<open>pms.reload()\<close> after saving; \<open>app.py\<close> does not. The browser's cookie
  session is not part of the state.
\<close>

definition signup_store ::
  "(string \<Rightarrow> string) \<Rightarrow> system \<Rightarrow> string \<Rightarrow> string \<Rightarrow> string \<Rightarrow> string \<Rightarrow> string \<Rightarrow> string
     \<Rightarrow> (error + session) \<times> system" where
  "signup_store ulower s u1 form_username form_password form_name form_age form_gender =
     (let username = py_lower ulower (py_strip form_username);
          password = py_strip form_password;
          name = py_strip form_name;
          age = py_strip form_age;
          gender = py_strip form_gender;
          d = load_data s
      in if dict_mem username (users d) then (Inl UsernameTaken, s)
         else
           let patient_id = u1;
               d1 = d\<lparr>users := dict_set (users d) username
                      \<lparr>user_password = password, user_role = ''Patient'',
                       user_id = Some patient_id\<rparr>\<rparr>;
               d2 = d1\<lparr>patients := dict_set (patients d1) (Some patient_id)
                      \<lparr>pat_id = Some patient_id, pat_name = name, pat_age = age,
                       pat_gender = gender\<rparr>\<rparr>;
               cu = \<lparr>cu_username = username, cu_role = ''Patient'', cu_id = Some patient_id\<rparr>
           in (Inr cu, save_data d2 s))"

definition signup ::
  "(string \<Rightarrow> string) \<Rightarrow> system \<Rightarrow> string \<Rightarrow> string \<Rightarrow> string \<Rightarrow> string \<Rightarrow> string \<Rightarrow> string
     \<Rightarrow> (error + session) \<times> system" where
  "signup ulower s u1 form_username form_password form_name form_age form_gender =
     (case signup_store ulower s u1 form_username form_password form_name form_age form_gender of
        (Inl e, s1) \<Rightarrow> (Inl e, s1)
      | (Inr cu, s1) \<Rightarrow> (Inr cu, s1\<lparr>current_user := Some cu\<rparr>))"

definition deploy_signup ::
  "(string \<Rightarrow> string) \<Rightarrow> system \<Rightarrow> string \<Rightarrow> string \<Rightarrow> string \<Rightarrow> string \<Rightarrow> string \<Rightarrow> string
     \<Rightarrow> (error + session) \<times> system" where
  "deploy_signup ulower s u1 form_username form_password form_name form_age form_gender =
     (case signup_store ulower s u1 form_username form_password form_name form_age form_gender of
        (Inl e, s1) \<Rightarrow> (Inl e, s1)
      | (Inr cu, s1) \<Rightarrow> (Inr cu, (reload s1)\<lparr>current_user := Some cu\<rparr>))"

text \<open>The POST branch of the \<open>login\<close> route: both fields stripped, nothing lower-cased.\<close>

definition login_route :: "system \<Rightarrow> string \<Rightarrow> string \<Rightarrow> bool \<times> system" where
  "login_route s form_username form_password =
     login s (py_strip form_username) (py_strip form_password)"

section \<open>Example documents\<close>

text \<open>
  A small clinic: three cardiologists in the order they were added, a doctor whose
  specialty is spelled in lower case, a dermatologist, and two appointments on
  2025-01-01 at 09:00.
\<close>

definition ward :: document where
  "ward =
     \<lparr>users =
        [(''admin'', \<lparr>user_password = ''adminpass'', user_role = ''Admin'', user_id = None\<rparr>),
         (''ann'', \<lparr>user_password = ''pw'', user_role = ''Patient'', user_id = Some ''p1''\<rparr>),
         (''bob'', \<lparr>user_password = ''pw'', user_role = ''Patient'', user_id = Some ''p2''\<rparr>),
         (''a'', \<lparr>user_password = ''pw'', user_role = ''Doctor'', user_id = Some ''d1''\<rparr>)],
      patients =
        [(Some ''p1'', \<lparr>pat_id = Some ''p1'', pat_name = ''Ann'', pat_age = ''30'',
                        pat_gender = ''F''\<rparr>)],
      doctors =
        [(''d1'', \<lparr>doc_id = ''d1'', doc_name = ''A'', doc_specialty = ''Cardiology''\<rparr>),
         (''d2'', \<lparr>doc_id = ''d2'', doc_name = ''B'', doc_specialty = ''Cardiology''\<rparr>),
         (''d3'', \<lparr>doc_id = ''d3'', doc_name = ''C'', doc_specialty = ''Cardiology''\<rparr>),
         (''d4'', \<lparr>doc_id = ''d4'', doc_name = ''D'', doc_specialty = ''cardiology''\<rparr>),
         (''d5'', \<lparr>doc_id = ''d5'', doc_name = ''E'', doc_specialty = ''Dermatologist''\<rparr>)],
      appointments =
        [\<lparr>appt_id = ''a1'', appt_patient_id = Some ''p1'', appt_doctor_id = Some ''d1'',
          appt_date = ''2025-01-01'', appt_time = ''09:00'', appt_problem = ''Heart'',
          appt_status = ''Approved''\<rparr>,
         \<lparr>appt_id = ''a2'', appt_patient_id = Some ''p1'', appt_doctor_id = Some ''d5'',
          appt_date = ''2025-01-01'', appt_time = ''09:00'', appt_problem = ''Skin'',
          appt_status = ''Approved''\<rparr>],
      reports = [], referrals = []\<rparr>"

definition ann :: session where
  "ann = \<lparr>cu_username = ''ann'', cu_role = ''Patient'', cu_id = Some ''p1''\<rparr>"

definition bob :: session where
  "bob = \<lparr>cu_username = ''bob'', cu_role = ''Patient'', cu_id = Some ''p2''\<rparr>"

definition dr_a :: session where
  "dr_a = \<lparr>cu_username = ''a'', cu_role = ''Doctor'', cu_id = Some ''d1''\<rparr>"

definition ward_system :: "session \<Rightarrow> system" where
  "ward_system cu = \<lparr>data = ward, current_user = Some cu, store = Some ward\<rparr>"

text \<open>
  The appointments of one patient seen from 2025-01-01: two in the future, one in the
  past, one of another patient, an emergency, and one whose date does not parse.
  \<open>clock\<close> lists what \<open>strptime\<close> returns on the texts that occur, as minutes on some
  scale; any other text is refused.
\<close>

definition ledger :: document where
  "ledger = ward\<lparr>appointments :=
     [\<lparr>appt_id = ''b1'', appt_patient_id = Some ''p1'', appt_doctor_id = Some ''d1'',
       appt_date = ''2025-01-05'', appt_time = ''10:00'', appt_problem = ''Heart'',
       appt_status = ''Approved''\<rparr>,
      \<lparr>appt_id = ''b2'', appt_patient_id = Some ''p1'', appt_doctor_id = Some ''d2'',
       appt_date = ''2025-01-03'', appt_time = ''09:00'', appt_problem = ''Heart'',
       appt_status = ''Approved''\<rparr>,
      \<lparr>appt_id = ''b3'', appt_patient_id = Some ''p1'', appt_doctor_id = Some ''d1'',
       appt_date = ''2024-12-30'', appt_time = ''09:00'', appt_problem = ''Heart'',
       appt_status = ''Approved''\<rparr>,
      \<lparr>appt_id = ''b4'', appt_patient_id = Some ''p2'', appt_doctor_id = Some ''d1'',
       appt_date = ''2025-01-02'', appt_time = ''09:00'', appt_problem = ''Heart'',
       appt_status = ''Approved''\<rparr>,
      \<lparr>appt_id = ''b5'', appt_patient_id = Some ''p1'', appt_doctor_id = None,
       appt_date = ''2025-01-02'', appt_time = ''08:00'', appt_problem = ''Fall'',
       appt_status = ''Emergency''\<rparr>,
      \<lparr>appt_id = ''b6'', appt_patient_id = Some ''p1'', appt_doctor_id = Some ''d1'',
       appt_date = ''soon'', appt_time = ''10:00'', appt_problem = ''Heart'',
       appt_status = ''Approved''\<rparr>]\<rparr>"

definition clock :: "string \<Rightarrow> nat option" where
  "clock = map_of
     [(''2024-12-30 09:00'', 10), (''2025-01-02 08:00'', 30), (''2025-01-02 09:00'', 40),
      (''2025-01-03 09:00'', 50), (''2025-01-05 10:00'', 60)]"

definition ledger_system :: system where
  "ledger_system = \<lparr>data = ledger, current_user = Some ann, store = Some ledger\<rparr>"

text \<open>
  Emergencies: one unassigned, one assigned to doctor \<open>d2\<close>, beside an ordinary
  appointment of doctor \<open>d1\<close>.
\<close>

definition casualty :: document where
  "casualty = ward\<lparr>appointments :=
     [\<lparr>appt_id = ''e1'', appt_patient_id = Some ''p1'', appt_doctor_id = None,
       appt_date = ''2025-01-01'', appt_time = ''08:05'', appt_problem = ''Fall'',
       appt_status = ''Emergency''\<rparr>,
      \<lparr>appt_id = ''e3'', appt_patient_id = Some ''p2'', appt_doctor_id = Some ''d2'',
       appt_date = ''2025-01-01'', appt_time = ''08:30'', appt_problem = ''Chest pain'',
       appt_status = ''Emergency''\<rparr>,
      \<lparr>appt_id = ''e4'', appt_patient_id = Some ''p1'', appt_doctor_id = Some ''d1'',
       appt_date = ''2025-01-01'', appt_time = ''09:00'', appt_problem = ''Heart'',
       appt_status = ''Approved''\<rparr>]\<rparr>"

definition casualty_system :: system where
  "casualty_system = \<lparr>data = casualty, current_user = Some dr_a, store = Some casualty\<rparr>"

text \<open>
  A day of doctor \<open>d1\<close>: two Approved appointments at 10:00, in this order, one at
  12:30, which is not a slot, and one whose time is 09:00 written with a leading space
  and a trailing no-break space.
\<close>

definition first_visit :: appointment where
  "first_visit = \<lparr>appt_id = ''g1'', appt_patient_id = Some ''p1'', appt_doctor_id = Some ''d1'',
       appt_date = ''2025-01-05'', appt_time = ''10:00'', appt_problem = ''first'',
       appt_status = ''Approved''\<rparr>"

definition second_visit :: appointment where
  "second_visit = \<lparr>appt_id = ''g2'', appt_patient_id = Some ''p2'', appt_doctor_id = Some ''d1'',
       appt_date = ''2025-01-05'', appt_time = ''10:00'', appt_problem = ''second'',
       appt_status = ''Approved''\<rparr>"

definition off_grid :: appointment where
  "off_grid = \<lparr>appt_id = ''g3'', appt_patient_id = Some ''p1'', appt_doctor_id = Some ''d1'',
       appt_date = ''2025-01-05'', appt_time = ''12:30'', appt_problem = ''third'',
       appt_status = ''Approved''\<rparr>"

definition padded :: appointment where
  "padded = \<lparr>appt_id = ''g4'', appt_patient_id = Some ''p1'', appt_doctor_id = Some ''d1'',
       appt_date = ''2025-01-05'', appt_time = '' 09:00'' @ [CHR 0xC2, CHR 0xA0],
       appt_problem = ''fourth'', appt_status = ''Approved''\<rparr>"

definition grid_day :: document where
  "grid_day = ward\<lparr>appointments := [first_visit, second_visit, off_grid, padded]\<rparr>"

definition grid_system :: system where
  "grid_system = \<lparr>data = grid_day, current_user = Some dr_a, store = Some grid_day\<rparr>"

text \<open>What one slot shows after the appointments \<open>xs\<close> have been processed.\<close>

definition shown :: "(string \<Rightarrow> string) \<Rightarrow> document \<Rightarrow> pyid \<Rightarrow> string \<Rightarrow> appointment list \<Rightarrow> slot \<Rightarrow> slot" where
  "shown ulower d doctor_id today xs sl =
     (case filter (\<lambda>a. on_today ulower doctor_id today a \<and> py_strip (appt_time a) = slot_time sl) xs of
        [] \<Rightarrow> sl
      | a # as \<Rightarrow> booked d (last (a # as)) sl)"

text \<open>The program at its first start: no file yet, the default document in memory.\<close>

definition first_run :: system where
  "first_run = \<lparr>data = default_document, current_user = None, store = None\<rparr>"

text \<open>
  Appointments on two days: doctor \<open>d1\<close> has one on 2025-01-01, doctor \<open>d2\<close> has two on
  2025-01-02, doctor \<open>d3\<close> has none.
\<close>

definition two_days :: document where
  "two_days = ward\<lparr>appointments :=
     [\<lparr>appt_id = ''t1'', appt_patient_id = Some ''p1'', appt_doctor_id = Some ''d1'',
       appt_date = ''2025-01-01'', appt_time = ''09:00'', appt_problem = ''Heart'',
       appt_status = ''Approved''\<rparr>,
      \<lparr>appt_id = ''t2'', appt_patient_id = Some ''p1'', appt_doctor_id = Some ''d2'',
       appt_date = ''2025-01-02'', appt_time = ''09:00'', appt_problem = ''Heart'',
       appt_status = ''Approved''\<rparr>,
      \<lparr>appt_id = ''t3'', appt_patient_id = Some ''p1'', appt_doctor_id = Some ''d2'',
       appt_date = ''2025-01-02'', appt_time = ''09:10'', appt_problem = ''Heart'',
       appt_status = ''Approved''\<rparr>]\<rparr>"

definition two_days_system :: system where
  "two_days_system = \<lparr>data = two_days, current_user = Some ann, store = Some two_days\<rparr>"

text \<open>The clinic with one more doctor, whose specialty is \<open>orthopedic\<close> in lower case.\<close>

definition lower_case_ward :: document where
  "lower_case_ward = ward\<lparr>doctors := doctors ward @
     [(''d6'', \<lparr>doc_id = ''d6'', doc_name = ''F'', doc_specialty = ''orthopedic''\<rparr>)]\<rparr>"

definition lower_case_system :: system where
  "lower_case_system =
     \<lparr>data = lower_case_ward, current_user = Some ann, store = Some lower_case_ward\<rparr>"

section \<open>Slot validation\<close>

lemma allowed_times_list:
  "allowed_times =
    [''09:00'', ''09:10'', ''09:20'', ''09:30'', ''09:40'', ''09:50'',
     ''10:00'', ''10:10'', ''10:20'', ''10:30'', ''10:40'', ''10:50'',
     ''11:00'', ''11:10'', ''11:20'', ''11:30'', ''11:40'', ''11:50'',
     ''14:00'', ''14:10'', ''14:20'', ''14:30'', ''14:40'', ''14:50'',
     ''15:00'', ''15:10'', ''15:20'', ''15:30'', ''15:40'', ''15:50'',
     ''16:00'', ''16:10'', ''16:20'', ''16:30'', ''16:40'', ''16:50'',
     ''17:00'', ''17:10'', ''17:20'', ''17:30'', ''17:40'', ''17:50'']"
  by code_simp

lemma hour_slots_length: "length (hour_slots hs) = 6 * length hs"
  by (induction hs) (simp_all add: hour_slots_def minutes_def)

lemma ward_system_simps:
  "data (ward_system cu) = ward"
  "current_user (ward_system cu) = Some cu"
  "store (ward_system cu) = Some ward"
  by (simp_all add: ward_system_def)

text \<open>
  C5. The allowed times are the 42 labels from 09:00 to 11:50 and from 14:00 to 17:50 in
  steps of ten minutes, 18 in the morning and 24 in the afternoon, without repetition. In
  the lineage variant a logged-in request is answered with \<open>InvalidSlot\<close> exactly when its
  time is not one of them, whatever the doctors collection holds, and then neither the
  appointments nor the stored document change.
\<close>

theorem invalid_slot_rejected:
  "allowed_times =
    [''09:00'', ''09:10'', ''09:20'', ''09:30'', ''09:40'', ''09:50'',
     ''10:00'', ''10:10'', ''10:20'', ''10:30'', ''10:40'', ''10:50'',
     ''11:00'', ''11:10'', ''11:20'', ''11:30'', ''11:40'', ''11:50'',
     ''14:00'', ''14:10'', ''14:20'', ''14:30'', ''14:40'', ''14:50'',
     ''15:00'', ''15:10'', ''15:20'', ''15:30'', ''15:40'', ''15:50'',
     ''16:00'', ''16:10'', ''16:20'', ''16:30'', ''16:40'', ''16:50'',
     ''17:00'', ''17:10'', ''17:20'', ''17:30'', ''17:40'', ''17:50'']
   \<and> length (hour_slots [9..<12]) = 18 \<and> length (hour_slots [14..<18]) = 24
   \<and> length allowed_times = 42 \<and> distinct allowed_times
   \<and> (current_user s = Some cu \<longrightarrow>
        (fst (dsa_book_appointment s u1 name age gender date time problem) = Inl InvalidSlot)
          = (time \<notin> set allowed_times))
   \<and> (current_user s = Some cu \<and> time \<notin> set allowed_times \<longrightarrow>
        appointments (data (snd (dsa_book_appointment s u1 name age gender date time problem)))
          = appointments (data s) \<and>
        store (snd (dsa_book_appointment s u1 name age gender date time problem)) = store s)"
proof -
  have len: "length allowed_times = 42"
    by (simp add: allowed_times_def hour_slots_length)
  have dist: "distinct allowed_times"
    by code_simp
  have rej: "fst (dsa_book_appointment s u1 name age gender date time problem) = Inl InvalidSlot
             \<longleftrightarrow> time \<notin> set allowed_times" if "current_user s = Some cu"
    using that
    by (auto simp add: dsa_book_appointment_def Let_def save_data_def split: list.splits)
  have same: "appointments (data (snd (dsa_book_appointment s u1 name age gender date time problem)))
          = appointments (data s) \<and>
        store (snd (dsa_book_appointment s u1 name age gender date time problem)) = store s"
    if "current_user s = Some cu" "time \<notin> set allowed_times"
    using that by (simp add: dsa_book_appointment_def Let_def)
  show ?thesis
    using allowed_times_list len dist rej same by (simp add: hour_slots_length)
qed

theorem invalid_slot_rejected_witness:
  "current_user (ward_system ann) = Some ann \<and> ''08:00'' \<notin> set allowed_times \<and>
   fst (dsa_book_appointment (ward_system ann) ''a3'' ''Ann'' ''30'' ''F''
          ''2025-01-01'' ''08:00'' ''Fever'') = Inl InvalidSlot \<and>
   appointments (data (snd (dsa_book_appointment (ward_system ann) ''a3'' ''Ann'' ''30'' ''F''
          ''2025-01-01'' ''08:00'' ''Fever''))) = appointments ward \<and>
   store (snd (dsa_book_appointment (ward_system ann) ''a3'' ''Ann'' ''30'' ''F''
          ''2025-01-01'' ''08:00'' ''Fever'')) = Some ward"
proof -
  have h1: "current_user (ward_system ann) = Some ann"
    by (simp add: ward_system_simps)
  have h2: "''08:00'' \<notin> set allowed_times"
    by (simp add: allowed_times_list)
  show ?thesis
    using h1 h2 ward_system_simps [of ann]
      invalid_slot_rejected [of "ward_system ann" ann "''a3''" "''Ann''" "''30''" "''F''"
        "''2025-01-01''" "''08:00''" "''Fever''"]
    by simp
qed

section \<open>Doctor assignment\<close>

lemma hd_insort_key:
  "hd (insort_key f x ys) = (if ys = [] \<or> f x \<le> f (hd ys) then x else hd ys)"
  by (cases ys) simp_all

lemma sort_key_eq_Nil: "sort_key f xs = [] \<longleftrightarrow> xs = []"
  by (metis length_0_conv length_sort)

lemma hd_sort_key_first_min:
  "xs \<noteq> [] \<Longrightarrow>
     \<exists>pre post. xs = pre @ hd (sort_key f xs) # post \<and>
       (\<forall>x \<in> set pre. f (hd (sort_key f xs)) < f x) \<and>
       (\<forall>x \<in> set post. f (hd (sort_key f xs)) \<le> f x)"
proof (induction xs)
  case Nil
  then show ?case by simp
next
  case (Cons x xs)
  show ?case
  proof (cases "xs = []")
    case True
    then have "x # xs = [] @ hd (sort_key f (x # xs)) # []"
      by simp
    then show ?thesis
      by (metis empty_iff empty_set)
  next
    case False
    from Cons.IH [OF False] obtain pre post where
      split: "xs = pre @ hd (sort_key f xs) # post" and
      before: "\<forall>y \<in> set pre. f (hd (sort_key f xs)) < f y" and
      after: "\<forall>y \<in> set post. f (hd (sort_key f xs)) \<le> f y"
      by blast
    let ?m = "hd (sort_key f xs)"
    have ne: "sort_key f xs \<noteq> []"
      using False by (simp add: sort_key_eq_Nil)
    show ?thesis
    proof (cases "f x \<le> f ?m")
      case True
      then have h: "hd (sort_key f (x # xs)) = x"
        by (simp add: hd_insort_key)
      have "\<forall>y \<in> set xs. f x \<le> f y"
      proof
        fix y assume "y \<in> set xs"
        then have "y \<in> set pre \<or> y = ?m \<or> y \<in> set post"
          using split by (metis Un_iff set_ConsD set_append)
        then show "f x \<le> f y"
          using True before after by (auto intro: order_trans less_imp_le)
      qed
      then have "x # xs = [] @ hd (sort_key f (x # xs)) # xs \<and>
          (\<forall>y \<in> set []. f (hd (sort_key f (x # xs))) < f y) \<and>
          (\<forall>y \<in> set xs. f (hd (sort_key f (x # xs))) \<le> f y)"
        using h by simp
      then show ?thesis by blast
    next
      case False
      then have h: "hd (sort_key f (x # xs)) = ?m"
        using ne by (simp add: hd_insort_key)
      have "x # xs = (x # pre) @ ?m # post"
        using split by simp
      moreover have "\<forall>y \<in> set (x # pre). f ?m < f y"
        using False before by auto
      ultimately show ?thesis
        using after h by metis
    qed
  qed
qed

text \<open>
  C1. With a session and at least one doctor of the resolved specialty, the booking
  returns a doctor \<open>chosen\<close> that splits the doctors of that specialty, taken in the
  insertion order of the doctors collection, into those before it and those after it.
  Counting for each doctor the appointments whose \<open>doctor_id\<close> is the doctor's id and
  whose date is the requested date, every doctor before \<open>chosen\<close> has strictly more than
  \<open>chosen\<close> and every doctor after it has at least as many: \<open>chosen\<close> is the first
  with the fewest appointments on that date. The appended appointment carries its id.
\<close>

theorem fewest_same_day_first:
  assumes "current_user s = Some cu"
    and "filter (\<lambda>doc. doc_specialty doc = resolve_specialty problem)
           (map snd (doctors (data s))) \<noteq> []"
  shows "\<exists>chosen pre post.
      fst (book_appointment s u1 u2 name age gender date time problem) = Inr chosen \<and>
      filter (\<lambda>doc. doc_specialty doc = resolve_specialty problem) (map snd (doctors (data s)))
        = pre @ chosen # post \<and>
      (\<forall>other \<in> set pre.
         length (filter (\<lambda>a. appt_doctor_id a = Some (doc_id chosen) \<and> appt_date a = date)
                   (appointments (data s)))
         < length (filter (\<lambda>a. appt_doctor_id a = Some (doc_id other) \<and> appt_date a = date)
                     (appointments (data s)))) \<and>
      (\<forall>other \<in> set post.
         length (filter (\<lambda>a. appt_doctor_id a = Some (doc_id chosen) \<and> appt_date a = date)
                   (appointments (data s)))
         \<le> length (filter (\<lambda>a. appt_doctor_id a = Some (doc_id other) \<and> appt_date a = date)
                     (appointments (data s)))) \<and>
      appt_doctor_id (last (appointments (data (snd (book_appointment s u1 u2 name age gender
          date time problem))))) = Some (doc_id chosen)"
proof -
  let ?c = "candidates (data s) (resolve_specialty problem)"
  let ?k = "same_day_count (data s) date"
  have c: "?c = filter (\<lambda>doc. doc_specialty doc = resolve_specialty problem)
                  (map snd (doctors (data s)))"
    by (simp add: candidates_def dict_values_def)
  have k: "?k doc = length (filter (\<lambda>a. appt_doctor_id a = Some (doc_id doc) \<and> appt_date a = date)
                     (appointments (data s)))" for doc
    by (simp add: same_day_count_def)
  have ne: "?c \<noteq> []"
    unfolding c by (rule assms(2))
  obtain pre post where "?c = pre @ hd (sort_key ?k ?c) # post"
    "\<forall>x \<in> set pre. ?k (hd (sort_key ?k ?c)) < ?k x"
    "\<forall>x \<in> set post. ?k (hd (sort_key ?k ?c)) \<le> ?k x"
    using hd_sort_key_first_min [OF ne, of ?k] by blast
  moreover have "fst (book_appointment s u1 u2 name age gender date time problem)
      = Inr (hd (sort_key ?k ?c))"
    using assms(1) ne by (simp add: book_appointment_def Let_def)
  moreover have "appt_doctor_id (last (appointments (data (snd (book_appointment s u1 u2 name age
      gender date time problem))))) = Some (doc_id (hd (sort_key ?k ?c)))"
    using assms(1) ne by (simp add: book_appointment_def Let_def save_data_def)
  ultimately show ?thesis
    unfolding c k by blast
qed

theorem fewest_same_day_first_witness:
  "current_user two_days_system = Some ann \<and>
   filter (\<lambda>doc. doc_specialty doc = resolve_specialty ''Heart'')
     (map snd (doctors (data two_days_system))) \<noteq> [] \<and>
   map doc_id (filter (\<lambda>doc. doc_specialty doc = resolve_specialty ''Heart'')
     (map snd (doctors (data two_days_system)))) = [''d1'', ''d2'', ''d3''] \<and>
   map (\<lambda>doc. length (filter (\<lambda>a. appt_doctor_id a = Some (doc_id doc) \<and>
                                  appt_date a = ''2025-01-01'')
                        (appointments (data two_days_system))))
     (filter (\<lambda>doc. doc_specialty doc = resolve_specialty ''Heart'')
        (map snd (doctors (data two_days_system)))) = [1, 0, 0] \<and>
   map (\<lambda>doc. length (filter (\<lambda>a. appt_doctor_id a = Some (doc_id doc))
                        (appointments (data two_days_system))))
     (filter (\<lambda>doc. doc_specialty doc = resolve_specialty ''Heart'')
        (map snd (doctors (data two_days_system)))) = [1, 2, 0] \<and>
   fst (book_appointment two_days_system ''a3'' ''a4'' ''Ann'' ''30'' ''F''
          ''2025-01-01'' ''10:00'' ''Heart'')
     = Inr \<lparr>doc_id = ''d2'', doc_name = ''B'', doc_specialty = ''Cardiology''\<rparr> \<and>
   fst (book_appointment two_days_system ''a3'' ''a4'' ''Ann'' ''30'' ''F''
          ''2025-01-02'' ''10:00'' ''Heart'')
     = Inr \<lparr>doc_id = ''d1'', doc_name = ''A'', doc_specialty = ''Cardiology''\<rparr> \<and>
   (\<exists>chosen pre post.
      fst (book_appointment two_days_system ''a3'' ''a4'' ''Ann'' ''30'' ''F''
             ''2025-01-01'' ''10:00'' ''Heart'') = Inr chosen \<and>
      filter (\<lambda>doc. doc_specialty doc = resolve_specialty ''Heart'')
        (map snd (doctors (data two_days_system))) = pre @ chosen # post \<and>
      (\<forall>other \<in> set pre.
         length (filter (\<lambda>a. appt_doctor_id a = Some (doc_id chosen) \<and>
                              appt_date a = ''2025-01-01'') (appointments (data two_days_system)))
         < length (filter (\<lambda>a. appt_doctor_id a = Some (doc_id other) \<and>
                                appt_date a = ''2025-01-01'') (appointments (data two_days_system)))) \<and>
      (\<forall>other \<in> set post.
         length (filter (\<lambda>a. appt_doctor_id a = Some (doc_id chosen) \<and>
                              appt_date a = ''2025-01-01'') (appointments (data two_days_system)))
         \<le> length (filter (\<lambda>a. appt_doctor_id a = Some (doc_id other) \<and>
                                appt_date a = ''2025-01-01'') (appointments (data two_days_system)))) \<and>
      appt_doctor_id (last (appointments (data (snd (book_appointment two_days_system
             ''a3'' ''a4'' ''Ann'' ''30'' ''F'' ''2025-01-01'' ''10:00'' ''Heart'')))))
        = Some (doc_id chosen))"
proof -
  have h1: "current_user two_days_system = Some ann"
    by (simp add: two_days_system_def)
  have h2: "filter (\<lambda>doc. doc_specialty doc = resolve_specialty ''Heart'')
     (map snd (doctors (data two_days_system))) \<noteq> []"
    by code_simp
  have ids: "map doc_id (filter (\<lambda>doc. doc_specialty doc = resolve_specialty ''Heart'')
     (map snd (doctors (data two_days_system)))) = [''d1'', ''d2'', ''d3'']"
    by code_simp
  have on_day: "map (\<lambda>doc. length (filter (\<lambda>a. appt_doctor_id a = Some (doc_id doc) \<and>
                                  appt_date a = ''2025-01-01'')
                        (appointments (data two_days_system))))
     (filter (\<lambda>doc. doc_specialty doc = resolve_specialty ''Heart'')
        (map snd (doctors (data two_days_system)))) = [1, 0, 0]"
    by code_simp
  have all_days: "map (\<lambda>doc. length (filter (\<lambda>a. appt_doctor_id a = Some (doc_id doc))
                        (appointments (data two_days_system))))
     (filter (\<lambda>doc. doc_specialty doc = resolve_specialty ''Heart'')
        (map snd (doctors (data two_days_system)))) = [1, 2, 0]"
    by code_simp
  have r1: "fst (book_appointment two_days_system ''a3'' ''a4'' ''Ann'' ''30'' ''F''
          ''2025-01-01'' ''10:00'' ''Heart'')
     = Inr \<lparr>doc_id = ''d2'', doc_name = ''B'', doc_specialty = ''Cardiology''\<rparr>"
    by code_simp
  have r2: "fst (book_appointment two_days_system ''a3'' ''a4'' ''Ann'' ''30'' ''F''
          ''2025-01-02'' ''10:00'' ''Heart'')
     = Inr \<lparr>doc_id = ''d1'', doc_name = ''A'', doc_specialty = ''Cardiology''\<rparr>"
    by code_simp
  show ?thesis
    using h1 h2 ids on_day all_days r1 r2
      fewest_same_day_first [OF h1 h2, of "''a3''" "''a4''" "''Ann''" "''30''" "''F''"
        "''2025-01-01''" "''10:00''"]
    by blast
qed

section \<open>Specialty routing and double booking\<close>

lemma dict_mem_keys: "dict_mem k d \<longleftrightarrow> k \<in> set (dict_keys d)"
  by (simp add: dict_mem_def dict_keys_def map_of_eq_None_iff)

text \<open>
  C2, as amended. The table has the six keys Heart, Fever, Skin, Diabetes, Bone and
  Can't say; Heart resolves to Cardiology, Skin to Dermatologist, Diabetes to
  Endocrinologist, Bone to Orthopedic, and every other problem, in the table (Fever,
  Can't say) or not, to General Physician. With a session, the booking answers
  \<open>NoDoctorAvailable\<close> with the resolved specialty exactly when no doctor of the
  collection has that very string as specialty, and then it leaves the whole state as it
  was. Otherwise it returns a doctor of the collection with that specialty who has no
  more appointments on the requested date than any doctor of the collection with that
  specialty: the doctors that compete are exactly those whose specialty string equals
  the resolved one.
\<close>

theorem specialty_routing:
  "dict_keys problem_to_specialty
     = [''Heart'', ''Fever'', ''Skin'', ''Diabetes'', ''Bone'', ''Can'' @ [CHR 0x27] @ ''t say'']
   \<and> resolve_specialty problem
     = (if problem = ''Heart'' then ''Cardiology''
        else if problem = ''Skin'' then ''Dermatologist''
        else if problem = ''Diabetes'' then ''Endocrinologist''
        else if problem = ''Bone'' then ''Orthopedic''
        else ''General Physician'')
   \<and> (problem \<notin> set (dict_keys problem_to_specialty) \<longrightarrow>
        resolve_specialty problem = ''General Physician'')
   \<and> (current_user s = Some cu \<longrightarrow>
        (fst (book_appointment s u1 u2 name age gender date time problem)
           = Inl (NoDoctorAvailable (resolve_specialty problem)))
        = (\<not> (\<exists>doc \<in> set (map snd (doctors (data s))).
                doc_specialty doc = resolve_specialty problem)))
   \<and> (current_user s = Some cu \<and>
       \<not> (\<exists>doc \<in> set (map snd (doctors (data s))).
             doc_specialty doc = resolve_specialty problem) \<longrightarrow>
        snd (book_appointment s u1 u2 name age gender date time problem) = s)
   \<and> (current_user s = Some cu \<and>
       (\<exists>doc \<in> set (map snd (doctors (data s))).
          doc_specialty doc = resolve_specialty problem) \<longrightarrow>
        (\<exists>chosen \<in> set (map snd (doctors (data s))).
           fst (book_appointment s u1 u2 name age gender date time problem) = Inr chosen \<and>
           doc_specialty chosen = resolve_specialty problem \<and>
           (\<forall>doc \<in> set (map snd (doctors (data s))).
              doc_specialty doc = resolve_specialty problem \<longrightarrow>
                length (filter (\<lambda>a. appt_doctor_id a = Some (doc_id chosen) \<and> appt_date a = date)
                          (appointments (data s)))
                \<le> length (filter (\<lambda>a. appt_doctor_id a = Some (doc_id doc) \<and> appt_date a = date)
                            (appointments (data s))))))"
proof -
  let ?sp = "resolve_specialty problem"
  let ?c = "candidates (data s) ?sp"
  let ?k = "same_day_count (data s) date"
  have keys: "dict_keys problem_to_specialty
     = [''Heart'', ''Fever'', ''Skin'', ''Diabetes'', ''Bone'', ''Can'' @ [CHR 0x27] @ ''t say'']"
    by (simp add: dict_keys_def problem_to_specialty_def)
  have table: "?sp
     = (if problem = ''Heart'' then ''Cardiology''
        else if problem = ''Skin'' then ''Dermatologist''
        else if problem = ''Diabetes'' then ''Endocrinologist''
        else if problem = ''Bone'' then ''Orthopedic''
        else ''General Physician'')"
    by (simp add: resolve_specialty_def problem_to_specialty_def)
  have unmapped: "?sp = ''General Physician''"
    if "problem \<notin> set (dict_keys problem_to_specialty)"
  proof -
    have "map_of problem_to_specialty problem = None"
      using that by (simp add: dict_keys_def map_of_eq_None_iff)
    then show ?thesis
      by (simp add: resolve_specialty_def)
  qed
  have empty: "(?c = []) = (\<not> (\<exists>doc \<in> set (map snd (doctors (data s))). doc_specialty doc = ?sp))"
    by (auto simp add: candidates_def dict_values_def filter_empty_conv)
  have fails: "(fst (book_appointment s u1 u2 name age gender date time problem)
           = Inl (NoDoctorAvailable ?sp)) = (?c = [])"
    if "current_user s = Some cu"
    using that by (simp add: book_appointment_def Let_def)
  have unchanged: "snd (book_appointment s u1 u2 name age gender date time problem) = s"
    if "current_user s = Some cu" "?c = []"
    using that by (simp add: book_appointment_def Let_def)
  have chosen: "\<exists>chosen \<in> set (map snd (doctors (data s))).
           fst (book_appointment s u1 u2 name age gender date time problem) = Inr chosen \<and>
           doc_specialty chosen = ?sp \<and>
           (\<forall>doc \<in> set (map snd (doctors (data s))).
              doc_specialty doc = ?sp \<longrightarrow>
                length (filter (\<lambda>a. appt_doctor_id a = Some (doc_id chosen) \<and> appt_date a = date)
                          (appointments (data s)))
                \<le> length (filter (\<lambda>a. appt_doctor_id a = Some (doc_id doc) \<and> appt_date a = date)
                            (appointments (data s))))"
    if session: "current_user s = Some cu" and ne: "?c \<noteq> []"
  proof -
    let ?m = "hd (sort_key ?k ?c)"
    obtain pre post where split: "?c = pre @ ?m # post"
      and before: "\<forall>x \<in> set pre. ?k ?m < ?k x"
      and after: "\<forall>x \<in> set post. ?k ?m \<le> ?k x"
      using hd_sort_key_first_min [OF ne, of ?k] by blast
    have "?m \<in> set ?c"
      using split by (metis in_set_conv_decomp)
    then have mem: "?m \<in> set (map snd (doctors (data s)))" and sp: "doc_specialty ?m = ?sp"
      by (simp_all add: candidates_def dict_values_def)
    have least: "?k ?m \<le> ?k doc"
      if "doc \<in> set (map snd (doctors (data s)))" "doc_specialty doc = ?sp" for doc
    proof -
      have "doc \<in> set ?c"
        using that by (simp add: candidates_def dict_values_def)
      then have "doc \<in> set pre \<or> doc = ?m \<or> doc \<in> set post"
        using split by (metis Un_iff set_ConsD set_append)
      then show ?thesis
        using before after by (auto intro: less_imp_le)
    qed
    have ret: "fst (book_appointment s u1 u2 name age gender date time problem) = Inr ?m"
      using session ne by (simp add: book_appointment_def Let_def)
    show ?thesis
      using mem sp ret least
      by (intro bexI [of _ ?m]) (simp_all add: same_day_count_def)
  qed
  show ?thesis
    using keys table unmapped fails unchanged chosen unfolding empty by blast
qed

text \<open>
  The claim as stated counts Fever among the problems that are not in the table; Fever
  is a key of the table, with the value General Physician.
\<close>

theorem specialty_routing_counterexample:
  "''Fever'' \<in> set (dict_keys problem_to_specialty) \<and>
   map_of problem_to_specialty ''Fever'' = Some ''General Physician''"
  by (simp add: dict_keys_def problem_to_specialty_def)

theorem specialty_routing_witness:
  "''Cough'' \<notin> set (dict_keys problem_to_specialty) \<and>
   resolve_specialty ''Cough'' = ''General Physician'' \<and>
   resolve_specialty ''Fever'' = ''General Physician'' \<and>
   resolve_specialty ''Heart'' = ''Cardiology'' \<and>
   resolve_specialty ''Bone'' = ''Orthopedic'' \<and>
   current_user lower_case_system = Some ann \<and>
   map doc_specialty (map snd (doctors (data lower_case_system)))
     = [''Cardiology'', ''Cardiology'', ''Cardiology'', ''cardiology'', ''Dermatologist'',
        ''orthopedic''] \<and>
   book_appointment lower_case_system ''a3'' ''a4'' ''Ann'' ''30'' ''F''
       ''2025-01-01'' ''10:00'' ''Cough''
     = (Inl (NoDoctorAvailable ''General Physician''), lower_case_system) \<and>
   book_appointment lower_case_system ''a3'' ''a4'' ''Ann'' ''30'' ''F''
       ''2025-01-01'' ''10:00'' ''Bone''
     = (Inl (NoDoctorAvailable ''Orthopedic''), lower_case_system) \<and>
   fst (book_appointment lower_case_system ''a3'' ''a4'' ''Ann'' ''30'' ''F''
       ''2025-01-01'' ''10:00'' ''Skin'')
     = Inr \<lparr>doc_id = ''d5'', doc_name = ''E'', doc_specialty = ''Dermatologist''\<rparr>"
proof -
  have h0: "''Cough'' \<notin> set (dict_keys problem_to_specialty)"
    by (simp add: dict_keys_def problem_to_specialty_def)
  have h1: "current_user lower_case_system = Some ann"
    by (simp add: lower_case_system_def)
  have sp: "map doc_specialty (map snd (doctors (data lower_case_system)))
     = [''Cardiology'', ''Cardiology'', ''Cardiology'', ''cardiology'', ''Dermatologist'',
        ''orthopedic'']"
    by (simp add: lower_case_system_def lower_case_ward_def ward_def)
  note cough = specialty_routing [of "''Cough''" lower_case_system ann
        "''a3''" "''a4''" "''Ann''" "''30''" "''F''" "''2025-01-01''" "''10:00''"]
  note bone = specialty_routing [of "''Bone''" lower_case_system ann
        "''a3''" "''a4''" "''Ann''" "''30''" "''F''" "''2025-01-01''" "''10:00''"]
  note fever = specialty_routing [of "''Fever''" lower_case_system ann
        "''a3''" "''a4''" "''Ann''" "''30''" "''F''" "''2025-01-01''" "''10:00''"]
  note heart = specialty_routing [of "''Heart''" lower_case_system ann
        "''a3''" "''a4''" "''Ann''" "''30''" "''F''" "''2025-01-01''" "''10:00''"]
  have r_cough: "resolve_specialty ''Cough'' = ''General Physician''"
    using cough h0 by blast
  have r_fever: "resolve_specialty ''Fever'' = ''General Physician''"
    using fever by simp
  have r_heart: "resolve_specialty ''Heart'' = ''Cardiology''"
    using heart by simp
  have r_bone: "resolve_specialty ''Bone'' = ''Orthopedic''"
    using bone by simp
  have none_gp: "\<not> (\<exists>doc \<in> set (map snd (doctors (data lower_case_system))).
      doc_specialty doc = resolve_specialty ''Cough'')"
    unfolding r_cough by (simp add: lower_case_system_def lower_case_ward_def ward_def)
  have none_ortho: "\<not> (\<exists>doc \<in> set (map snd (doctors (data lower_case_system))).
      doc_specialty doc = resolve_specialty ''Bone'')"
    unfolding r_bone by (simp add: lower_case_system_def lower_case_ward_def ward_def)
  have "fst (book_appointment lower_case_system ''a3'' ''a4'' ''Ann'' ''30'' ''F''
       ''2025-01-01'' ''10:00'' ''Cough'') = Inl (NoDoctorAvailable (resolve_specialty ''Cough''))"
    "snd (book_appointment lower_case_system ''a3'' ''a4'' ''Ann'' ''30'' ''F''
       ''2025-01-01'' ''10:00'' ''Cough'') = lower_case_system"
    using cough h1 none_gp by blast+
  then have b_cough: "book_appointment lower_case_system ''a3'' ''a4'' ''Ann'' ''30'' ''F''
       ''2025-01-01'' ''10:00'' ''Cough''
     = (Inl (NoDoctorAvailable ''General Physician''), lower_case_system)"
    by (simp add: prod_eq_iff r_cough)
  have "fst (book_appointment lower_case_system ''a3'' ''a4'' ''Ann'' ''30'' ''F''
       ''2025-01-01'' ''10:00'' ''Bone'') = Inl (NoDoctorAvailable (resolve_specialty ''Bone''))"
    "snd (book_appointment lower_case_system ''a3'' ''a4'' ''Ann'' ''30'' ''F''
       ''2025-01-01'' ''10:00'' ''Bone'') = lower_case_system"
    using bone h1 none_ortho by blast+
  then have b_bone: "book_appointment lower_case_system ''a3'' ''a4'' ''Ann'' ''30'' ''F''
       ''2025-01-01'' ''10:00'' ''Bone''
     = (Inl (NoDoctorAvailable ''Orthopedic''), lower_case_system)"
    by (simp add: prod_eq_iff r_bone)
  have b_skin: "fst (book_appointment lower_case_system ''a3'' ''a4'' ''Ann'' ''30'' ''F''
       ''2025-01-01'' ''10:00'' ''Skin'')
     = Inr \<lparr>doc_id = ''d5'', doc_name = ''E'', doc_specialty = ''Dermatologist''\<rparr>"
    by code_simp
  show ?thesis
    using h0 h1 sp r_cough r_fever r_heart r_bone b_cough b_bone b_skin by blast
qed

text \<open>
  C3. In the specialty-routing variant a logged-in request with a candidate always
  succeeds: it appends one Approved appointment for the chosen doctor at the requested
  date and time and stores the document, whatever appointments exist. In the lineage
  variant, when the time is an allowed slot and the first doctor of the collection has an
  Approved appointment at the requested date and time, the answer is \<open>Conflict\<close> and neither
  the appointments nor the stored document change.
\<close>

theorem double_booking:
  "(current_user s = Some cu \<and> candidates (data s) (resolve_specialty problem) \<noteq> [] \<longrightarrow>
      (\<exists>chosen \<in> set (candidates (data s) (resolve_specialty problem)).
         fst (book_appointment s u1 u2 name age gender date time problem) = Inr chosen \<and>
         appointments (data (snd (book_appointment s u1 u2 name age gender date time problem)))
           = appointments (data s) @
               [\<lparr>appt_id = (if truthy (cu_id cu) then u1 else u2),
                 appt_patient_id = (if truthy (cu_id cu) then cu_id cu else Some u1),
                 appt_doctor_id = Some (doc_id chosen), appt_date = date, appt_time = time,
                 appt_problem = problem, appt_status = ''Approved''\<rparr>] \<and>
         store (snd (book_appointment s u1 u2 name age gender date time problem))
           = Some (data (snd (book_appointment s u1 u2 name age gender date time problem)))))
   \<and> (current_user s = Some cu \<and> time \<in> set allowed_times \<and>
       dict_keys (doctors (data s)) = assigned_doc_id # others \<and>
       list_ex (\<lambda>appt. appt_doctor_id appt = Some assigned_doc_id \<and> appt_date appt = date \<and>
                  appt_time appt = time \<and> appt_status appt = ''Approved'')
         (appointments (data s)) \<longrightarrow>
         fst (dsa_book_appointment s u1 name age gender date time problem)
           = Inl (Conflict time date) \<and>
         appointments (data (snd (dsa_book_appointment s u1 name age gender date time problem)))
           = appointments (data s) \<and>
         store (snd (dsa_book_appointment s u1 name age gender date time problem)) = store s)"
proof -
  have routed: "\<exists>chosen \<in> set (candidates (data s) (resolve_specialty problem)).
         fst (book_appointment s u1 u2 name age gender date time problem) = Inr chosen \<and>
         appointments (data (snd (book_appointment s u1 u2 name age gender date time problem)))
           = appointments (data s) @
               [\<lparr>appt_id = (if truthy (cu_id cu) then u1 else u2),
                 appt_patient_id = (if truthy (cu_id cu) then cu_id cu else Some u1),
                 appt_doctor_id = Some (doc_id chosen), appt_date = date, appt_time = time,
                 appt_problem = problem, appt_status = ''Approved''\<rparr>] \<and>
         store (snd (book_appointment s u1 u2 name age gender date time problem))
           = Some (data (snd (book_appointment s u1 u2 name age gender date time problem)))"
    if "current_user s = Some cu" "candidates (data s) (resolve_specialty problem) \<noteq> []"
  proof -
    let ?c = "candidates (data s) (resolve_specialty problem)"
    let ?m = "hd (sort_key (same_day_count (data s) date) ?c)"
    have "sort_key (same_day_count (data s) date) ?c \<noteq> []"
      using that(2) by (metis length_0_conv length_sort)
    then have "?m \<in> set (sort_key (same_day_count (data s) date) ?c)"
      by (rule hd_in_set)
    then have mem: "?m \<in> set ?c"
      by simp
    show ?thesis
      by (rule bexI [OF _ mem])
        (use that in \<open>simp add: book_appointment_def Let_def save_data_def\<close>)
  qed
  have lineage: "fst (dsa_book_appointment s u1 name age gender date time problem)
           = Inl (Conflict time date) \<and>
         appointments (data (snd (dsa_book_appointment s u1 name age gender date time problem)))
           = appointments (data s) \<and>
         store (snd (dsa_book_appointment s u1 name age gender date time problem)) = store s"
    if "current_user s = Some cu" "time \<in> set allowed_times"
       "dict_keys (doctors (data s)) = assigned_doc_id # others"
       "list_ex (\<lambda>appt. appt_doctor_id appt = Some assigned_doc_id \<and> appt_date appt = date \<and>
                  appt_time appt = time \<and> appt_status appt = ''Approved'')
         (appointments (data s))"
  proof -
    have "list_ex (clashes assigned_doc_id date time) (appointments (data s))"
      using that(4) by (simp add: list_ex_iff clashes_def)
    then show ?thesis
      using that(1-3) by (simp add: dsa_book_appointment_def Let_def)
  qed
  show ?thesis
    using routed lineage by blast
qed


theorem double_booking_witness:
  "current_user (ward_system ann) = Some ann \<and>
   candidates (data (ward_system ann)) (resolve_specialty ''Skin'') \<noteq> [] \<and>
   ''09:00'' \<in> set allowed_times \<and>
   dict_keys (doctors (data (ward_system ann))) = ''d1'' # [''d2'', ''d3'', ''d4'', ''d5''] \<and>
   list_ex (\<lambda>appt. appt_doctor_id appt = Some ''d1'' \<and> appt_date appt = ''2025-01-01'' \<and>
              appt_time appt = ''09:00'' \<and> appt_status appt = ''Approved'')
     (appointments (data (ward_system ann))) \<and>
   fst (book_appointment (ward_system ann) ''a3'' ''a4'' ''Ann'' ''30'' ''F''
          ''2025-01-01'' ''09:00'' ''Skin'')
     = Inr \<lparr>doc_id = ''d5'', doc_name = ''E'', doc_specialty = ''Dermatologist''\<rparr> \<and>
   map (\<lambda>a. (appt_id a, appt_doctor_id a, appt_date a, appt_time a))
     (appointments (data (snd (book_appointment (ward_system ann) ''a3'' ''a4'' ''Ann'' ''30'' ''F''
          ''2025-01-01'' ''09:00'' ''Skin''))))
     = [(''a1'', Some ''d1'', ''2025-01-01'', ''09:00''),
        (''a2'', Some ''d5'', ''2025-01-01'', ''09:00''),
        (''a3'', Some ''d5'', ''2025-01-01'', ''09:00'')] \<and>
   fst (dsa_book_appointment (ward_system ann) ''a3'' ''Ann'' ''30'' ''F''
          ''2025-01-01'' ''09:00'' ''Skin'') = Inl (Conflict ''09:00'' ''2025-01-01'') \<and>
   appointments (data (snd (dsa_book_appointment (ward_system ann) ''a3'' ''Ann'' ''30'' ''F''
          ''2025-01-01'' ''09:00'' ''Skin''))) = appointments (data (ward_system ann))"
proof -
  have h1: "current_user (ward_system ann) = Some ann"
    by (simp add: ward_system_simps)
  have h2: "candidates (data (ward_system ann)) (resolve_specialty ''Skin'') \<noteq> []"
    by code_simp
  have h3: "''09:00'' \<in> set allowed_times"
    by (simp add: allowed_times_list)
  have h4: "dict_keys (doctors (data (ward_system ann))) = ''d1'' # [''d2'', ''d3'', ''d4'', ''d5'']"
    by (simp add: ward_system_simps ward_def dict_keys_def)
  have h5: "list_ex (\<lambda>appt. appt_doctor_id appt = Some ''d1'' \<and> appt_date appt = ''2025-01-01'' \<and>
              appt_time appt = ''09:00'' \<and> appt_status appt = ''Approved'')
     (appointments (data (ward_system ann)))"
    by (simp add: ward_system_simps ward_def)
  have r1: "fst (book_appointment (ward_system ann) ''a3'' ''a4'' ''Ann'' ''30'' ''F''
          ''2025-01-01'' ''09:00'' ''Skin'')
     = Inr \<lparr>doc_id = ''d5'', doc_name = ''E'', doc_specialty = ''Dermatologist''\<rparr>"
    by code_simp
  have r2: "map (\<lambda>a. (appt_id a, appt_doctor_id a, appt_date a, appt_time a))
     (appointments (data (snd (book_appointment (ward_system ann) ''a3'' ''a4'' ''Ann'' ''30'' ''F''
          ''2025-01-01'' ''09:00'' ''Skin''))))
     = [(''a1'', Some ''d1'', ''2025-01-01'', ''09:00''),
        (''a2'', Some ''d5'', ''2025-01-01'', ''09:00''),
        (''a3'', Some ''d5'', ''2025-01-01'', ''09:00'')]"
    by code_simp
  note t = double_booking [of "ward_system ann" ann "''Skin''" "''a3''" "''a4''" "''Ann''" "''30''"
      "''F''" "''2025-01-01''" "''09:00''" "''d1''" "[''d2'', ''d3'', ''d4'', ''d5'']"]
  have r3: "fst (dsa_book_appointment (ward_system ann) ''a3'' ''Ann'' ''30'' ''F''
          ''2025-01-01'' ''09:00'' ''Skin'') = Inl (Conflict ''09:00'' ''2025-01-01'') \<and>
   appointments (data (snd (dsa_book_appointment (ward_system ann) ''a3'' ''Ann'' ''30'' ''F''
          ''2025-01-01'' ''09:00'' ''Skin''))) = appointments (data (ward_system ann))"
    using t h1 h3 h4 h5 by blast
  show ?thesis
    using h1 h2 h3 h4 h5 r1 r2 r3 by blast
qed

section \<open>Referrals\<close>

text \<open>
  C9. For a logged-in doctor, \<open>create_referral\<close> fails exactly when the patient id is not a
  key of the patients collection or the target doctor id is not a key of the doctors
  collection. A missing patient gives \<open>PatientNotFound\<close>, a present patient with a missing
  target doctor gives \<open>TargetDoctorNotFound\<close>, both with the state untouched. Otherwise
  one referral from the session's id to the target is appended and the document stored;
  the session's id is never compared with the target, so a doctor may refer to
  themselves.
\<close>

theorem referral_validation:
  "current_user s = Some cu \<longrightarrow>
     (isl (fst (create_referral s today patient_id to_doc_id notes))
        = (\<not> (patient_id \<in> set (dict_keys (patients (data s))) \<and>
               to_doc_id \<in> set (dict_keys (doctors (data s))))))
     \<and> (patient_id \<notin> set (dict_keys (patients (data s))) \<longrightarrow>
          create_referral s today patient_id to_doc_id notes = (Inl PatientNotFound, s))
     \<and> (patient_id \<in> set (dict_keys (patients (data s))) \<and>
        to_doc_id \<notin> set (dict_keys (doctors (data s))) \<longrightarrow>
          create_referral s today patient_id to_doc_id notes = (Inl TargetDoctorNotFound, s))
     \<and> (patient_id \<in> set (dict_keys (patients (data s))) \<and>
        to_doc_id \<in> set (dict_keys (doctors (data s))) \<longrightarrow>
          fst (create_referral s today patient_id to_doc_id notes) = Inr patient_id \<and>
          referrals (data (snd (create_referral s today patient_id to_doc_id notes)))
            = referrals (data s) @
                [\<lparr>ref_patient_id = patient_id, ref_from_doc_id = cu_id cu,
                  ref_to_doc_id = to_doc_id, ref_date = today, ref_notes = notes\<rparr>] \<and>
          store (snd (create_referral s today patient_id to_doc_id notes))
            = Some (data (snd (create_referral s today patient_id to_doc_id notes))))"
  by (simp add: create_referral_def dict_mem_keys Let_def save_data_def)

theorem referral_validation_witness:
  "current_user (ward_system dr_a) = Some dr_a \<and>
   Some ''p1'' \<in> set (dict_keys (patients (data (ward_system dr_a)))) \<and>
   ''d1'' \<in> set (dict_keys (doctors (data (ward_system dr_a)))) \<and>
   cu_id dr_a = Some ''d1'' \<and>
   fst (create_referral (ward_system dr_a) ''2025-01-01'' (Some ''p1'') ''d1'' ''second look'')
     = Inr (Some ''p1'') \<and>
   referrals (data (snd (create_referral (ward_system dr_a) ''2025-01-01'' (Some ''p1'') ''d1''
       ''second look'')))
     = [\<lparr>ref_patient_id = Some ''p1'', ref_from_doc_id = Some ''d1'', ref_to_doc_id = ''d1'',
         ref_date = ''2025-01-01'', ref_notes = ''second look''\<rparr>] \<and>
   Some ''p9'' \<notin> set (dict_keys (patients (data (ward_system dr_a)))) \<and>
   create_referral (ward_system dr_a) ''2025-01-01'' (Some ''p9'') ''d9'' ''x''
     = (Inl PatientNotFound, ward_system dr_a) \<and>
   ''d9'' \<notin> set (dict_keys (doctors (data (ward_system dr_a)))) \<and>
   create_referral (ward_system dr_a) ''2025-01-01'' (Some ''p1'') ''d9'' ''x''
     = (Inl TargetDoctorNotFound, ward_system dr_a)"
proof -
  have h1: "current_user (ward_system dr_a) = Some dr_a"
    by (simp add: ward_system_simps)
  have h2: "Some ''p1'' \<in> set (dict_keys (patients (data (ward_system dr_a))))"
    by (simp add: ward_system_simps ward_def dict_keys_def)
  have h3: "''d1'' \<in> set (dict_keys (doctors (data (ward_system dr_a))))"
    by (simp add: ward_system_simps ward_def dict_keys_def)
  have h4: "Some ''p9'' \<notin> set (dict_keys (patients (data (ward_system dr_a))))"
    by (simp add: ward_system_simps ward_def dict_keys_def)
  have h5: "''d9'' \<notin> set (dict_keys (doctors (data (ward_system dr_a))))"
    by (simp add: ward_system_simps ward_def dict_keys_def)
  have i: "cu_id dr_a = Some ''d1''"
    by (simp add: dr_a_def)
  have e: "referrals (data (ward_system dr_a)) = []"
    by (simp add: ward_system_simps ward_def)
  note ok = referral_validation [of "ward_system dr_a" dr_a "''2025-01-01''" "Some ''p1''" "''d1''"
      "''second look''"]
  note no_patient = referral_validation [of "ward_system dr_a" dr_a "''2025-01-01''" "Some ''p9''"
      "''d9''" "''x''"]
  note no_doctor = referral_validation [of "ward_system dr_a" dr_a "''2025-01-01''" "Some ''p1''"
      "''d9''" "''x''"]
  have r1: "fst (create_referral (ward_system dr_a) ''2025-01-01'' (Some ''p1'') ''d1'' ''second look'')
     = Inr (Some ''p1'') \<and>
   referrals (data (snd (create_referral (ward_system dr_a) ''2025-01-01'' (Some ''p1'') ''d1''
       ''second look'')))
     = [\<lparr>ref_patient_id = Some ''p1'', ref_from_doc_id = Some ''d1'', ref_to_doc_id = ''d1'',
         ref_date = ''2025-01-01'', ref_notes = ''second look''\<rparr>]"
    using ok h1 h2 h3 i e by simp
  have r2: "create_referral (ward_system dr_a) ''2025-01-01'' (Some ''p9'') ''d9'' ''x''
     = (Inl PatientNotFound, ward_system dr_a)"
    using no_patient h1 h4 by blast
  have r3: "create_referral (ward_system dr_a) ''2025-01-01'' (Some ''p1'') ''d9'' ''x''
     = (Inl TargetDoctorNotFound, ward_system dr_a)"
    using no_doctor h1 h2 h5 by blast
  show ?thesis
    using h1 h2 h3 h4 h5 i r1 r2 r3 by blast
qed

section \<open>Upcoming checkup\<close>

lemma upcoming_loop_source:
  "upcoming_loop ulower strptime d pid now xs acc = Some u \<Longrightarrow>
     acc = Some u \<or>
     (\<exists>a \<in> set xs. appt_patient_id a = pid \<and> status_is ulower ''approved'' a \<and>
        strptime (stamp a) = Some (up_datetime u) \<and> now < up_datetime u \<and>
        u = checkup_entry d a (up_datetime u))"
proof (induction xs arbitrary: acc)
  case Nil
  then show ?case by simp
next
  case (Cons a xs)
  from Cons.IH [OF Cons.prems [unfolded upcoming_loop.simps]]
  show ?case
    by (auto simp add: checkup_entry_def split: if_splits option.splits)
qed

lemma upcoming_loop_below_acc:
  "\<exists>u. upcoming_loop ulower strptime d pid now xs (Some v) = Some u \<and> up_datetime u \<le> up_datetime v"
proof (induction xs arbitrary: v)
  case Nil
  then show ?case by simp
next
  case (Cons a xs)
  show ?case
  proof (cases "appt_patient_id a = pid \<and> status_is ulower ''approved'' a")
    case False
    then show ?thesis using Cons.IH [of v] by auto
  next
    case True
    show ?thesis
    proof (cases "strptime (stamp a)")
      case None
      then show ?thesis using True Cons.IH [of v] by auto
    next
      case (Some dt)
      show ?thesis
      proof (cases "now < dt \<and> dt < up_datetime v")
        case False
        then show ?thesis using True Some Cons.IH [of v] by auto
      next
        case yes: True
        obtain u where "upcoming_loop ulower strptime d pid now xs (Some (checkup_entry d a dt)) = Some u"
          "up_datetime u \<le> up_datetime (checkup_entry d a dt)"
          using Cons.IH [of "checkup_entry d a dt"] by blast
        moreover have "up_datetime (checkup_entry d a dt) = dt"
          by (simp add: checkup_entry_def)
        ultimately show ?thesis
          using True Some yes by auto
      qed
    qed
  qed
qed

lemma upcoming_loop_below_each:
  "a \<in> set xs \<Longrightarrow> appt_patient_id a = pid \<Longrightarrow> status_is ulower ''approved'' a \<Longrightarrow>
   strptime (stamp a) = Some dt \<Longrightarrow> now < dt \<Longrightarrow>
     \<exists>u. upcoming_loop ulower strptime d pid now xs acc = Some u \<and> up_datetime u \<le> dt"
proof (induction xs arbitrary: acc)
  case Nil
  then show ?case by simp
next
  case (Cons x xs)
  show ?case
  proof (cases "a = x")
    case False
    then have "a \<in> set xs" using Cons.prems(1) by simp
    from Cons.IH [OF this Cons.prems(2-5)]
    show ?thesis by simp
  next
    case True
    have e: "up_datetime (checkup_entry d x dt) = dt"
      by (simp add: checkup_entry_def)
    show ?thesis
    proof (cases acc)
      case None
      then show ?thesis
        using True Cons.prems(2-5) upcoming_loop_below_acc [of ulower strptime d pid now xs "checkup_entry d x dt"] e
        by auto
    next
      case (Some v)
      show ?thesis
      proof (cases "dt < up_datetime v")
        case True
        then show ?thesis
          using \<open>a = x\<close> Some Cons.prems(2-5)
            upcoming_loop_below_acc [of ulower strptime d pid now xs "checkup_entry d x dt"] e
          by auto
      next
        case False
        obtain u where "upcoming_loop ulower strptime d pid now xs (Some v) = Some u"
          "up_datetime u \<le> up_datetime v"
          using upcoming_loop_below_acc [of ulower strptime d pid now xs v] by blast
        then show ?thesis
          using \<open>a = x\<close> Some False Cons.prems(2-5) by auto
      qed
    qed
  qed
qed

text \<open>
  C6. For a logged-in patient the view returns a result \<open>r\<close>. If \<open>r\<close> is an entry, its
  instant is strictly after \<open>now\<close> and it is the entry of one of the patient's Approved
  appointments (status compared as the code does, trimmed and in lower case) whose date
  and time parse to that instant. Every Approved appointment of the patient that parses
  to an instant after \<open>now\<close> forces an entry whose instant is not later. \<open>r\<close> is \<open>None\<close>
  exactly when the patient has no such appointment.
\<close>

theorem upcoming_checkup_earliest:
  assumes "current_user s = Some cu"
  shows "\<exists>r. get_upcoming_checkup ulower strptime s now = Inr r \<and>
    (\<forall>u. r = Some u \<longrightarrow>
       now < up_datetime u \<and>
       (\<exists>a \<in> set (appointments (data s)).
          appt_patient_id a = cu_id cu \<and> status_is ulower ''approved'' a \<and>
          strptime (stamp a) = Some (up_datetime u) \<and>
          u = checkup_entry (data s) a (up_datetime u))) \<and>
    (\<forall>a \<in> set (appointments (data s)). \<forall>dt.
       appt_patient_id a = cu_id cu \<and> status_is ulower ''approved'' a \<and>
       strptime (stamp a) = Some dt \<and> now < dt \<longrightarrow>
         (\<exists>u. r = Some u \<and> up_datetime u \<le> dt)) \<and>
    ((r = None) =
       (\<not> (\<exists>a \<in> set (appointments (data s)). \<exists>dt.
           appt_patient_id a = cu_id cu \<and> status_is ulower ''approved'' a \<and>
           strptime (stamp a) = Some dt \<and> now < dt)))"
proof -
  let ?r = "upcoming_loop ulower strptime (data s) (cu_id cu) now (appointments (data s)) None"
  have ret: "get_upcoming_checkup ulower strptime s now = Inr ?r"
    using assms by (simp add: get_upcoming_checkup_def)
  have src: "now < up_datetime u \<and>
       (\<exists>a \<in> set (appointments (data s)).
          appt_patient_id a = cu_id cu \<and> status_is ulower ''approved'' a \<and>
          strptime (stamp a) = Some (up_datetime u) \<and>
          u = checkup_entry (data s) a (up_datetime u))" if "?r = Some u" for u
    using upcoming_loop_source [OF that] by auto
  have low: "\<exists>u. ?r = Some u \<and> up_datetime u \<le> dt"
    if "a \<in> set (appointments (data s))" "appt_patient_id a = cu_id cu"
       "status_is ulower ''approved'' a" "strptime (stamp a) = Some dt" "now < dt" for a dt
    using that by (rule upcoming_loop_below_each [where strptime = strptime])
  have none: "(?r = None) =
       (\<not> (\<exists>a \<in> set (appointments (data s)). \<exists>dt.
           appt_patient_id a = cu_id cu \<and> status_is ulower ''approved'' a \<and>
           strptime (stamp a) = Some dt \<and> now < dt))"
  proof (cases ?r)
    case None
    then show ?thesis using low by fastforce
  next
    case (Some u)
    then show ?thesis using src [OF Some] by auto
  qed
  show ?thesis
    using ret src low none by (intro exI [of _ ?r]) blast
qed

theorem upcoming_checkup_earliest_witness:
  "current_user ledger_system = Some ann \<and>
   get_upcoming_checkup id clock ledger_system 20
     = Inr (Some \<lparr>up_datetime = 50, up_Date = ''2025-01-03'', up_Time = ''09:00'',
                  up_Doctor = ''B'', up_Problem = ''Heart''\<rparr>) \<and>
   get_upcoming_checkup id clock ledger_system 60 = Inr None \<and>
   (\<exists>r. get_upcoming_checkup id clock ledger_system 20 = Inr r \<and>
      (\<forall>u. r = Some u \<longrightarrow>
         20 < up_datetime u \<and>
         (\<exists>a \<in> set (appointments (data ledger_system)).
            appt_patient_id a = cu_id ann \<and> status_is id ''approved'' a \<and>
            clock (stamp a) = Some (up_datetime u) \<and>
            u = checkup_entry (data ledger_system) a (up_datetime u))) \<and>
      (\<forall>a \<in> set (appointments (data ledger_system)). \<forall>dt.
         appt_patient_id a = cu_id ann \<and> status_is id ''approved'' a \<and>
         clock (stamp a) = Some dt \<and> 20 < dt \<longrightarrow>
           (\<exists>u. r = Some u \<and> up_datetime u \<le> dt)) \<and>
      ((r = None) =
         (\<not> (\<exists>a \<in> set (appointments (data ledger_system)). \<exists>dt.
             appt_patient_id a = cu_id ann \<and> status_is id ''approved'' a \<and>
             clock (stamp a) = Some dt \<and> 20 < dt))))"
proof -
  have h1: "current_user ledger_system = Some ann"
    by (simp add: ledger_system_def)
  have r1: "get_upcoming_checkup id clock ledger_system 20
     = Inr (Some \<lparr>up_datetime = 50, up_Date = ''2025-01-03'', up_Time = ''09:00'',
                  up_Doctor = ''B'', up_Problem = ''Heart''\<rparr>)"
    by code_simp
  have r2: "get_upcoming_checkup id clock ledger_system 60 = Inr None"
    by code_simp
  show ?thesis
    using h1 r1 r2 upcoming_checkup_earliest [OF h1, of id clock 20]
    by blast
qed

section \<open>Emergency view\<close>

lemma emergency_loop_filter:
  "emergency_loop ulower d doctor_id xs = map (emergency_entry d) (filter (visible_emergency ulower doctor_id) xs)"
  by (induction xs) simp_all

lemma canonical_status:
  "py_lower ulower (py_strip ''Emergency'') = ''emergency''"
  "py_lower ulower (py_strip ''Approved'') = ''approved''"
  by code_simp+

lemma not_truthy: "\<not> truthy x \<longleftrightarrow> x = None \<or> x = Some []"
  by (cases x) (simp_all add: truthy_def)

text \<open>
  On any document the view is the filter the loop applies: the status test of the code
  and a \<open>doctor_id\<close> that is the querying doctor's or false in Python's sense.
\<close>

lemma emergency_cases_filter:
  "get_emergency_cases ulower s doctor_id
     = map (emergency_entry (data s))
         (filter (\<lambda>a. status_is ulower ''emergency'' a \<and>
                    (appt_doctor_id a = doctor_id \<or> appt_doctor_id a = None \<or>
                     appt_doctor_id a = Some ''''))
            (appointments (data s)))"
proof -
  have "visible_emergency ulower doctor_id = (\<lambda>a. status_is ulower ''emergency'' a \<and>
                    (appt_doctor_id a = doctor_id \<or> appt_doctor_id a = None \<or>
                     appt_doctor_id a = Some ''''))"
    by (rule ext) (simp add: visible_emergency_def not_truthy)
  then show ?thesis
    by (simp add: get_emergency_cases_def emergency_loop_filter)
qed

text \<open>
  C7. On a document whose appointments have the status Approved or Emergency and a
  \<open>doctor_id\<close> that is \<open>None\<close> or a non-empty id (all that \<open>book_appointment\<close> and
  \<open>log_emergency\<close> write), the emergency view lists, in the order of the appointments,
  the entries of exactly the appointments whose status is Emergency and whose
  \<open>doctor_id\<close> is the querying doctor's id or \<open>None\<close>. On every document, an appointment
  with status Emergency and no doctor is in the view of every doctor who queries.
\<close>

theorem emergency_view:
  "(list_all (\<lambda>a. (appt_status a = ''Approved'' \<or> appt_status a = ''Emergency'') \<and>
                    appt_doctor_id a \<noteq> Some '''')
        (appointments (data s)) \<longrightarrow>
      get_emergency_cases ulower s doctor_id
        = map (emergency_entry (data s))
            (filter (\<lambda>a. appt_status a = ''Emergency'' \<and>
                       (appt_doctor_id a = doctor_id \<or> appt_doctor_id a = None))
               (appointments (data s))))
   \<and> (a \<in> set (appointments (data s)) \<and> appt_status a = ''Emergency'' \<and>
       appt_doctor_id a = None \<longrightarrow>
         emergency_entry (data s) a \<in> set (get_emergency_cases ulower s doctor_id))"
proof -
  have st: "status_is ulower ''emergency'' x = (appt_status x = ''Emergency'')"
    if "appt_status x = ''Approved'' \<or> appt_status x = ''Emergency''" for x
    using that by (auto simp add: status_is_def canonical_status)
  have model: "get_emergency_cases ulower s doctor_id
        = map (emergency_entry (data s))
            (filter (\<lambda>a. appt_status a = ''Emergency'' \<and>
                       (appt_doctor_id a = doctor_id \<or> appt_doctor_id a = None))
               (appointments (data s)))"
    if model_doc: "list_all (\<lambda>a. (appt_status a = ''Approved'' \<or> appt_status a = ''Emergency'') \<and>
                    appt_doctor_id a \<noteq> Some '''')
        (appointments (data s))"
  proof -
    have wf: "\<forall>a \<in> set (appointments (data s)).
       (appt_status a = ''Approved'' \<or> appt_status a = ''Emergency'') \<and>
       appt_doctor_id a \<noteq> Some ''''"
      using model_doc by (simp add: list_all_iff)
    have "filter (\<lambda>a. status_is ulower ''emergency'' a \<and>
                    (appt_doctor_id a = doctor_id \<or> appt_doctor_id a = None \<or>
                     appt_doctor_id a = Some ''''))
            (appointments (data s))
        = filter (\<lambda>a. appt_status a = ''Emergency'' \<and>
                       (appt_doctor_id a = doctor_id \<or> appt_doctor_id a = None))
               (appointments (data s))"
      using wf st by (intro filter_cong) auto
    then show ?thesis
      by (simp only: emergency_cases_filter)
  qed
  have broadcast: "emergency_entry (data s) a \<in> set (get_emergency_cases ulower s doctor_id)"
    if "a \<in> set (appointments (data s))" "appt_status a = ''Emergency''" "appt_doctor_id a = None"
    using that st [of a] unfolding emergency_cases_filter by simp
  show ?thesis
    using model broadcast by blast
qed

theorem emergency_view_witness:
  "list_all (\<lambda>a. (appt_status a = ''Approved'' \<or> appt_status a = ''Emergency'') \<and>
                 appt_doctor_id a \<noteq> Some '''')
     (appointments (data casualty_system)) \<and>
   map ec_ID (get_emergency_cases id casualty_system (Some ''d1'')) = [''e1''] \<and>
   map ec_ID (get_emergency_cases id casualty_system (Some ''d2'')) = [''e1'', ''e3''] \<and>
   get_emergency_cases id casualty_system (Some ''d2'')
     = map (emergency_entry (data casualty_system))
         (filter (\<lambda>a. appt_status a = ''Emergency'' \<and>
                    (appt_doctor_id a = Some ''d2'' \<or> appt_doctor_id a = None))
            (appointments (data casualty_system))) \<and>
   hd (appointments (data casualty_system)) \<in> set (appointments (data casualty_system)) \<and>
   appt_status (hd (appointments (data casualty_system))) = ''Emergency'' \<and>
   appt_doctor_id (hd (appointments (data casualty_system))) = None \<and>
   emergency_entry (data casualty_system) (hd (appointments (data casualty_system)))
     \<in> set (get_emergency_cases id casualty_system (Some ''d1'')) \<and>
   emergency_entry (data casualty_system) (hd (appointments (data casualty_system)))
     \<in> set (get_emergency_cases id casualty_system (Some ''d2''))"
proof -
  have wf: "list_all (\<lambda>a. (appt_status a = ''Approved'' \<or> appt_status a = ''Emergency'') \<and>
                 appt_doctor_id a \<noteq> Some '''')
     (appointments (data casualty_system))"
    by (simp add: casualty_system_def casualty_def)
  have h: "hd (appointments (data casualty_system)) \<in> set (appointments (data casualty_system))"
    "appt_status (hd (appointments (data casualty_system))) = ''Emergency''"
    "appt_doctor_id (hd (appointments (data casualty_system))) = None"
    by (simp_all add: casualty_system_def casualty_def)
  have r: "map ec_ID (get_emergency_cases id casualty_system (Some ''d1'')) = [''e1'']"
    "map ec_ID (get_emergency_cases id casualty_system (Some ''d2'')) = [''e1'', ''e3'']"
    by code_simp+
  note d1 = emergency_view [of casualty_system id "Some ''d1''"
      "hd (appointments (data casualty_system))"]
  note d2 = emergency_view [of casualty_system id "Some ''d2''"
      "hd (appointments (data casualty_system))"]
  have eq: "get_emergency_cases id casualty_system (Some ''d2'')
     = map (emergency_entry (data casualty_system))
         (filter (\<lambda>a. appt_status a = ''Emergency'' \<and>
                    (appt_doctor_id a = Some ''d2'' \<or> appt_doctor_id a = None))
            (appointments (data casualty_system)))"
    using d2 wf by blast
  have b1: "emergency_entry (data casualty_system) (hd (appointments (data casualty_system)))
     \<in> set (get_emergency_cases id casualty_system (Some ''d1''))"
    using d1 h by blast
  have b2: "emergency_entry (data casualty_system) (hd (appointments (data casualty_system)))
     \<in> set (get_emergency_cases id casualty_system (Some ''d2''))"
    using d2 h by blast
  show ?thesis
    using wf h r eq b1 b2 by blast
qed

section \<open>Today's schedule\<close>

lemma slots_list:
  "slots =
    [''09:00'', ''09:10'', ''09:20'', ''09:30'', ''09:40'', ''09:50'',
     ''10:00'', ''10:10'', ''10:20'', ''10:30'', ''10:40'', ''10:50'',
     ''11:00'', ''11:10'', ''11:20'', ''11:30'', ''11:40'', ''11:50'',
     ''14:00'', ''14:10'', ''14:20'', ''14:30'', ''14:40'', ''14:50'',
     ''15:00'', ''15:10'', ''15:20'', ''15:30'', ''15:40'', ''15:50'',
     ''16:00'', ''16:10'', ''16:20'', ''16:30'', ''16:40'', ''16:50'',
     ''17:00'', ''17:10'', ''17:20'', ''17:30'', ''17:40'', ''17:50'']"
  using allowed_times_list by (simp add: slots_def allowed_times_def)

lemma distinct_slots: "distinct slots"
  by code_simp


lemma slot_time_booked [simp]: "slot_time (booked d a sl) = slot_time sl"
  by (simp add: booked_def)

lemma booked_booked [simp]: "booked d a (booked d b sl) = booked d a sl"
  by (simp add: booked_def)

lemma fill_slot_map:
  "distinct (map slot_time sch) \<Longrightarrow>
     fill_slot d a t sch = map (\<lambda>sl. if slot_time sl = t then booked d a sl else sl) sch"
proof (induction sch)
  case Nil
  then show ?case by simp
next
  case (Cons sl sch)
  show ?case
  proof (cases "slot_time sl = t")
    case True
    then have "t \<notin> set (map slot_time sch)"
      using Cons.prems by simp
    then have "\<forall>x \<in> set sch. slot_time x \<noteq> t"
      by auto
    then have "map (\<lambda>sl. if slot_time sl = t then booked d a sl else sl) sch = sch"
      by (simp add: map_idI)
    then show ?thesis using True by simp
  next
    case False
    then show ?thesis using Cons by simp
  qed
qed

lemma shown_step:
  "shown ulower d doctor_id today xs
     (if on_today ulower doctor_id today a \<and> py_strip (appt_time a) = slot_time sl
      then booked d a sl else sl)
   = shown ulower d doctor_id today (a # xs) sl"
  by (simp add: shown_def split: list.splits)

lemma today_loop_shown:
  "distinct (map slot_time sch) \<Longrightarrow>
     today_loop ulower d doctor_id today xs sch = map (shown ulower d doctor_id today xs) sch"
proof (induction xs arbitrary: sch)
  case Nil
  then show ?case by (simp add: shown_def)
next
  case (Cons a xs)
  let ?step = "\<lambda>sl. if on_today ulower doctor_id today a \<and> py_strip (appt_time a) = slot_time sl
      then booked d a sl else sl"
  have next_sch: "(if on_today ulower doctor_id today a
        then fill_slot d a (py_strip (appt_time a)) sch else sch) = map ?step sch"
    using Cons.prems by (simp add: fill_slot_map map_idI)
  have times: "map slot_time (map ?step sch) = map slot_time sch"
    by (induction sch) simp_all
  have still: "distinct (map slot_time (map ?step sch))"
    using Cons.prems by (simp only: times)
  have "today_loop ulower d doctor_id today (a # xs) sch
      = today_loop ulower d doctor_id today xs (map ?step sch)"
    using next_sch by simp
  also have "\<dots> = map (shown ulower d doctor_id today xs) (map ?step sch)"
    by (rule Cons.IH [OF still])
  also have "\<dots> = map (shown ulower d doctor_id today (a # xs)) sch"
    by (simp add: shown_step)
  finally show ?case .
qed

text \<open>
  C10, as amended. The grid has one entry for each of the 42 slot times, in their fixed
  order. The entry of a slot is the Available entry when none of the doctor's Approved
  appointments of today has that time after \<open>str.strip()\<close>; otherwise it is Booked and
  shows the last such appointment of the appointments list, each later one having
  overwritten the earlier. An appointment whose stripped time is no slot time matches no
  entry and is absent.
\<close>

theorem today_grid:
  "get_today_appointments ulower s doctor_id today
     = map (\<lambda>t. case filter (\<lambda>a. on_today ulower doctor_id today a \<and> py_strip (appt_time a) = t)
                        (appointments (data s)) of
                   [] \<Rightarrow> available t
                 | a # as \<Rightarrow> booked (data s) (last (a # as)) (available t))
         slots
   \<and> length (get_today_appointments ulower s doctor_id today) = 42
   \<and> map slot_time (get_today_appointments ulower s doctor_id today) =
    [''09:00'', ''09:10'', ''09:20'', ''09:30'', ''09:40'', ''09:50'',
     ''10:00'', ''10:10'', ''10:20'', ''10:30'', ''10:40'', ''10:50'',
     ''11:00'', ''11:10'', ''11:20'', ''11:30'', ''11:40'', ''11:50'',
     ''14:00'', ''14:10'', ''14:20'', ''14:30'', ''14:40'', ''14:50'',
     ''15:00'', ''15:10'', ''15:20'', ''15:30'', ''15:40'', ''15:50'',
     ''16:00'', ''16:10'', ''16:20'', ''16:30'', ''16:40'', ''16:50'',
     ''17:00'', ''17:10'', ''17:20'', ''17:30'', ''17:40'', ''17:50'']"
proof -
  let ?view = "\<lambda>t. case filter (\<lambda>a. on_today ulower doctor_id today a \<and> py_strip (appt_time a) = t)
                        (appointments (data s)) of
                   [] \<Rightarrow> available t
                 | a # as \<Rightarrow> booked (data s) (last (a # as)) (available t)"
  have at: "slot_time (available t) = t" for t
    by (simp add: available_def)
  have "map slot_time (map available ts) = ts" for ts
    by (induction ts) (simp_all add: at)
  then have times: "map slot_time (map available slots) = slots" .
  have "distinct (map slot_time (map available slots))"
    using distinct_slots by (simp only: times)
  then have "get_today_appointments ulower s doctor_id today
      = map (shown ulower (data s) doctor_id today (appointments (data s))) (map available slots)"
    by (simp only: get_today_appointments_def today_loop_shown)
  also have "\<dots> = map ?view slots"
    by (simp add: shown_def at)
  finally have eq: "get_today_appointments ulower s doctor_id today = map ?view slots" .
  have st: "slot_time (?view t) = t" for t
    by (simp add: at split: list.splits)
  have "map slot_time (map ?view ts) = ts" for ts
    by (induction ts) (simp_all add: st)
  then have "map slot_time (get_today_appointments ulower s doctor_id today) = slots"
    by (simp only: eq)
  then have labels: "map slot_time (get_today_appointments ulower s doctor_id today) =
    [''09:00'', ''09:10'', ''09:20'', ''09:30'', ''09:40'', ''09:50'',
     ''10:00'', ''10:10'', ''10:20'', ''10:30'', ''10:40'', ''10:50'',
     ''11:00'', ''11:10'', ''11:20'', ''11:30'', ''11:40'', ''11:50'',
     ''14:00'', ''14:10'', ''14:20'', ''14:30'', ''14:40'', ''14:50'',
     ''15:00'', ''15:10'', ''15:20'', ''15:30'', ''15:40'', ''15:50'',
     ''16:00'', ''16:10'', ''16:20'', ''16:30'', ''16:40'', ''16:50'',
     ''17:00'', ''17:10'', ''17:20'', ''17:30'', ''17:40'', ''17:50'']"
    by (simp only: slots_list)
  have "length (map slot_time (get_today_appointments ulower s doctor_id today)) = 42"
    by (simp only: labels) simp
  then have len: "length (get_today_appointments ulower s doctor_id today) = 42"
    by simp
  show ?thesis
    using eq len labels by blast
qed

text \<open>
  The claim as stated fails twice on one day of doctor \<open>d1\<close>. Two Approved appointments
  share the slot 10:00 and the entry shows the second of the list, not the first. An
  appointment whose time string is 09:00 between a space and a no-break space, which is
  not one of the 42 slot times, is shown in the slot 09:00.
\<close>

theorem today_grid_counterexample:
  "appointments (data grid_system) = [first_visit, second_visit, off_grid, padded] \<and>
   on_today id (Some ''d1'') ''2025-01-05'' first_visit \<and>
   on_today id (Some ''d1'') ''2025-01-05'' second_visit \<and>
   appt_time first_visit = ''10:00'' \<and> appt_time second_visit = ''10:00'' \<and>
   appt_id first_visit = ''g1'' \<and>
   get_today_appointments id grid_system (Some ''d1'') ''2025-01-05'' ! 6
     = \<lparr>slot_time = ''10:00'', slot_status = ''Booked'', slot_patient = ''Unknown'',
        slot_problem = ''second'', slot_appt_id = Some ''g2''\<rparr> \<and>
   on_today id (Some ''d1'') ''2025-01-05'' padded \<and>
   appt_time padded \<notin> set slots \<and>
   appt_id padded = ''g4'' \<and>
   get_today_appointments id grid_system (Some ''d1'') ''2025-01-05'' ! 0
     = \<lparr>slot_time = ''09:00'', slot_status = ''Booked'', slot_patient = ''Ann'',
        slot_problem = ''fourth'', slot_appt_id = Some ''g4''\<rparr>"
  by code_simp

theorem today_grid_witness:
  "length (get_today_appointments id grid_system (Some ''d1'') ''2025-01-05'') = 42 \<and>
   map slot_appt_id (get_today_appointments id grid_system (Some ''d1'') ''2025-01-05'')
     = [Some ''g4''] @ replicate 5 None @ [Some ''g2''] @ replicate 35 None"
proof -
  have "map slot_appt_id (get_today_appointments id grid_system (Some ''d1'') ''2025-01-05'')
     = [Some ''g4''] @ replicate 5 None @ [Some ''g2''] @ replicate 35 None"
    by code_simp
  then show ?thesis
    using today_grid [of id grid_system "Some ''d1''" "''2025-01-05''"] by blast
qed

section \<open>Failures and the document\<close>

text \<open>
  In \<open>pms_core.py\<close> every operation that fails returns the state it was given; the
  lineage \<open>book_appointment\<close> keeps the stored document and the appointments.
\<close>

lemma login_failure: "\<not> fst (login s username password) \<Longrightarrow> snd (login s username password) = s"
  by (simp add: login_def split: option.splits if_splits)

lemma add_doctor_failure:
  "isl (fst (add_doctor ulower s u1 name specialty password)) \<Longrightarrow>
     snd (add_doctor ulower s u1 name specialty password) = s"
  by (simp add: add_doctor_def Let_def split: if_splits)

lemma book_appointment_failure:
  "isl (fst (book_appointment s u1 u2 name age gender date time problem)) \<Longrightarrow>
     snd (book_appointment s u1 u2 name age gender date time problem) = s"
  by (simp add: book_appointment_def Let_def split: option.splits if_splits)

lemma log_emergency_failure:
  "isl (fst (log_emergency s u1 today hm name age gender problem)) \<Longrightarrow>
     snd (log_emergency s u1 today hm name age gender problem) = s"
  by (simp add: log_emergency_def Let_def split: option.splits if_splits)

lemma create_referral_failure:
  "isl (fst (create_referral s today patient_id to_doc_id notes)) \<Longrightarrow>
     snd (create_referral s today patient_id to_doc_id notes) = s"
  by (simp add: create_referral_def Let_def split: option.splits if_splits)

lemma upload_report_failure:
  "isl (fst (upload_report s u1 today patient_id details file_name)) \<Longrightarrow>
     snd (upload_report s u1 today patient_id details file_name) = s"
  by (simp add: upload_report_def Let_def split: option.splits if_splits)

lemma dsa_book_appointment_failure:
  "isl (fst (dsa_book_appointment s u1 name age gender date time problem)) \<Longrightarrow>
     store (snd (dsa_book_appointment s u1 name age gender date time problem)) = store s \<and>
     appointments (data (snd (dsa_book_appointment s u1 name age gender date time problem)))
       = appointments (data s)"
  by (simp add: dsa_book_appointment_def Let_def split: option.splits if_splits list.splits)

text \<open>
  C4. The lineage \<open>book_appointment\<close> writes the requester's patient record into
  \<open>self.data\<close> before it validates the time. For a logged-in patient without a patient
  record, a request at 08:00 is answered with \<open>InvalidSlot\<close>, the stored document is the
  same, and the document in memory has a new patient; a request that ends in \<open>Conflict\<close>
  leaves the same trace.
\<close>

theorem failed_booking_keeps_patient:
  "current_user (ward_system bob) = Some bob \<and>
   fst (dsa_book_appointment (ward_system bob) ''a3'' ''Bob'' ''41'' ''M''
          ''2025-01-02'' ''08:00'' ''Fever'') = Inl InvalidSlot \<and>
   dict_keys (patients (data (ward_system bob))) = [Some ''p1''] \<and>
   patients (data (snd (dsa_book_appointment (ward_system bob) ''a3'' ''Bob'' ''41'' ''M''
          ''2025-01-02'' ''08:00'' ''Fever'')))
     = patients (data (ward_system bob)) @
         [(Some ''p2'', \<lparr>pat_id = Some ''p2'', pat_name = ''Bob'', pat_age = ''41'',
                         pat_gender = ''M''\<rparr>)] \<and>
   data (snd (dsa_book_appointment (ward_system bob) ''a3'' ''Bob'' ''41'' ''M''
          ''2025-01-02'' ''08:00'' ''Fever'')) \<noteq> data (ward_system bob) \<and>
   store (snd (dsa_book_appointment (ward_system bob) ''a3'' ''Bob'' ''41'' ''M''
          ''2025-01-02'' ''08:00'' ''Fever'')) = store (ward_system bob) \<and>
   fst (dsa_book_appointment (ward_system bob) ''a3'' ''Bob'' ''41'' ''M''
          ''2025-01-01'' ''09:00'' ''Fever'') = Inl (Conflict ''09:00'' ''2025-01-01'') \<and>
   data (snd (dsa_book_appointment (ward_system bob) ''a3'' ''Bob'' ''41'' ''M''
          ''2025-01-01'' ''09:00'' ''Fever'')) \<noteq> data (ward_system bob)"
  by code_simp

section \<open>Signup, then login\<close>

text \<open>
  C8. Signing up as \<open>Alice\<close> creates the user \<open>alice\<close> with role Patient and the patient
  record under the same id. After a reload, logging in with the credentials as they were
  typed, \<open>Alice\<close> and the password, is refused, while \<open>alice\<close> is accepted: the signup
  route lower-cases the username and the login route does not. Without a reload
  (\<open>app.py\<close> has none in \<open>signup\<close>) the login reads the document in memory, which
  does not hold the new user yet.
\<close>

theorem signup_login_case:
  "fst (signup ulower first_run ''p7'' ''Alice'' ''pw'' ''Alice A'' ''30'' ''F'')
     = Inr \<lparr>cu_username = ''alice'', cu_role = ''Patient'', cu_id = Some ''p7''\<rparr> \<and>
   map_of (users (load_data (snd (signup ulower first_run ''p7'' ''Alice'' ''pw'' ''Alice A'' ''30'' ''F''))))
       ''alice''
     = Some \<lparr>user_password = ''pw'', user_role = ''Patient'', user_id = Some ''p7''\<rparr> \<and>
   map_of (patients (load_data (snd (signup ulower first_run ''p7'' ''Alice'' ''pw'' ''Alice A'' ''30''
       ''F'')))) (Some ''p7'')
     = Some \<lparr>pat_id = Some ''p7'', pat_name = ''Alice A'', pat_age = ''30'', pat_gender = ''F''\<rparr> \<and>
   fst (login_route (reload (snd (signup ulower first_run ''p7'' ''Alice'' ''pw'' ''Alice A'' ''30'' ''F'')))
          ''Alice'' ''pw'') = False \<and>
   fst (login_route (reload (snd (signup ulower first_run ''p7'' ''Alice'' ''pw'' ''Alice A'' ''30'' ''F'')))
          ''alice'' ''pw'') = True \<and>
   fst (login_route (snd (deploy_signup ulower first_run ''p7'' ''Alice'' ''pw'' ''Alice A'' ''30'' ''F''))
          ''Alice'' ''pw'') = False \<and>
   fst (login_route (snd (signup ulower first_run ''p7'' ''Alice'' ''pw'' ''Alice A'' ''30'' ''F''))
          ''alice'' ''pw'') = False"
  by code_simp

end
